theory Spec2Isabelle
  imports Complex_Main "HOL-Library.Char_ord" "HOL-Library.List_Lexorder"
begin

section \<open>Values, errors and the outside world\<close>

text \<open>
  The retrieval layer of \<^verbatim>\<open>src/tools/api.py\<close> talks to HTTP providers, reads
  environment variables, keeps a module-global key index and uses a cache object. The
  embedding makes all of that explicit: what the outside world answers is an environment
  \<open>env\<close> (a parameter of every function), what the module mutates is a \<open>world\<close> that is
  passed in and returned. A Python exception is a value \<open>Inl e\<close> of a sum type.
  Printing is not modelled.
\<close>

datatype py_error =
  Timeout | RequestError | ValueError | TypeError | KeyError | IndexError
  | AttributeError | ZeroDivisionError | ValidationError

text \<open>Parsed JSON, which is also the shape of the Python values the adapters handle:
  \<open>JNull\<close> is \<^verbatim>\<open>None\<close>, a \<open>JObj\<close> lists the items of a dict.\<close>

datatype json =
  JNull | JBool bool | JNum real | JStr string | JArr "json list"
  | JObj "(string \<times> json) list"

record response =
  status_code :: int
  text_of :: string
  json_of :: "json option"

datatype http_outcome = Responded response | Raised py_error

record request =
  req_method :: string
  req_url :: string
  req_params :: "(string \<times> json) list"
  req_headers :: "(string \<times> string) list"
  req_json :: "json option"

record price =
  p_open :: real
  p_high :: real
  p_low :: real
  p_close :: real
  p_volume :: int
  p_time :: string

text \<open>The canonical records other than \<open>price\<close> are declared in \<^verbatim>\<open>src/data/models.py\<close>,
  which is not among the sources. A \<^verbatim>\<open>FinancialMetrics\<close> is the list of its named fields
  in the order the adapters pass them (what \<^verbatim>\<open>model_dump()\<close> returns); of an insider trade
  and a news item only the date field the pagination reads is named, the other fields are
  carried along.\<close>

type_synonym financial_metrics = "(string \<times> json) list"

type_synonym line_item = "(string \<times> json) list"

record insider_trade =
  filing_date :: string
  trade_fields :: "(string \<times> json) list"

record company_news =
  date :: string
  news_fields :: "(string \<times> json) list"

text \<open>
  The environment: \<open>net\<close> answers the \<open>n\<close>-th outbound call of a run; the three
  credentials of \<^verbatim>\<open>FINNHUB_KEYS\<close> and the two optional keys come from \<^verbatim>\<open>os.environ\<close>.
  \<open>strptime\<close> is \<^verbatim>\<open>datetime.strptime(s, "%Y-%m-%d")\<close> as a day number (\<open>None\<close> when it
  raises), \<open>timestamp_of\<close> is \<^verbatim>\<open>int(dt.timestamp())\<close> of that day, \<open>date_of_timestamp\<close> is
  \<^verbatim>\<open>datetime.fromtimestamp(ts).strftime("%Y-%m-%d")\<close>, \<open>float_of_string\<close> and
  \<open>int_of_string\<close> are \<^verbatim>\<open>float\<close> and \<^verbatim>\<open>int\<close> on a string. The validation that the
  constructor \<^verbatim>\<open>FinancialMetrics(...)\<close> performs and the parsing of the three response
  models of \<^verbatim>\<open>src/data/models.py\<close> are parameters too: \<open>valid_metrics\<close> says whether
  the constructor accepts the fields (it then holds them as given), and a parser returns
  \<open>None\<close> where the response model raises.
\<close>

record env =
  net :: "nat \<Rightarrow> request \<Rightarrow> http_outcome"
  FINNHUB_KEYS :: "string list"
  FMP_API_KEY :: "string option"
  FINANCIAL_DATASETS_API_KEY :: "string option"
  strptime :: "string \<Rightarrow> int option"
  timestamp_of :: "int \<Rightarrow> int"
  date_of_timestamp :: "real \<Rightarrow> string option"
  float_of_string :: "string \<Rightarrow> real option"
  int_of_string :: "string \<Rightarrow> int option"
  valid_metrics :: "financial_metrics \<Rightarrow> bool"
  parse_line_items :: "json \<Rightarrow> line_item list option"
  parse_insider_trades :: "json \<Rightarrow> insider_trade list option"
  parse_company_news :: "json \<Rightarrow> company_news list option"

text \<open>
  Modelled from the spec: the cache object of \<^verbatim>\<open>src/data/cache.py\<close> (\<^verbatim>\<open>get_cache()\<close>) is
  not among the sources. The specification describes it as an exact-match key to value
  store per resource kind with get and set semantics, treated as authoritative once
  written, whose stored payload reads back as the records that were written. It is a
  finite map per resource kind here: \<open>cache_get\<close> is the lookup (\<open>None\<close> on a miss) and
  \<open>cache_set\<close> overwrites the entry of the key. The financial-metrics store holds dicts,
  since the Finnhub adapter also keeps its raw FMP supplement there.
\<close>

record world =
  prices_cache :: "string \<rightharpoonup> price list"
  financial_metrics_cache :: "string \<rightharpoonup> json list"
  insider_trades_cache :: "string \<rightharpoonup> insider_trade list"
  company_news_cache :: "string \<rightharpoonup> company_news list"
  finnhub_key_index :: int
  http_log :: "request list"
  sleep_log :: "int list"

definition cache_get :: "(string \<rightharpoonup> 'v) \<Rightarrow> string \<Rightarrow> 'v option" where
  "cache_get store key = store key"

definition cache_set :: "(string \<rightharpoonup> 'v) \<Rightarrow> string \<Rightarrow> 'v \<Rightarrow> (string \<rightharpoonup> 'v)" where
  "cache_set store key data = store(key \<mapsto> data)"

text \<open>One outbound HTTP call: the environment answers the \<open>n\<close>-th call of the run, and
  the call is logged. \<^verbatim>\<open>time.sleep\<close> only logs its delay.\<close>

definition http_send :: "env \<Rightarrow> request \<Rightarrow> world \<Rightarrow> http_outcome \<times> world" where
  "http_send E req w = (net E (length (http_log w)) req, w\<lparr>http_log := http_log w @ [req]\<rparr>)"

definition sleep :: "int \<Rightarrow> world \<Rightarrow> world" where
  "sleep d w = w\<lparr>sleep_log := sleep_log w @ [d]\<rparr>"

definition upper_char :: "char \<Rightarrow> char" where
  "upper_char c =
     (case map_of (zip ''abcdefghijklmnopqrstuvwxyz'' ''ABCDEFGHIJKLMNOPQRSTUVWXYZ'') c of
        None \<Rightarrow> c | Some u \<Rightarrow> u)"

definition upper :: "string \<Rightarrow> string" where
  "upper s = map upper_char s"

section \<open>Python values\<close>

text \<open>Truthiness: \<^verbatim>\<open>None\<close>, \<^verbatim>\<open>False\<close>, zero and the empty string, list and dict are false.
  \<^verbatim>\<open>a or b\<close> is \<open>a\<close> when \<open>a\<close> is true and \<open>b\<close> otherwise.\<close>

fun truthy :: "json \<Rightarrow> bool" where
  "truthy JNull = False"
| "truthy (JBool b) = b"
| "truthy (JNum x) = (x \<noteq> 0)"
| "truthy (JStr s) = (s \<noteq> [])"
| "truthy (JArr xs) = (xs \<noteq> [])"
| "truthy (JObj kvs) = (kvs \<noteq> [])"

definition py_or :: "json \<Rightarrow> json \<Rightarrow> json" where
  "py_or a b = (if truthy a then a else b)"

definition truthy_str :: "string option \<Rightarrow> bool" where
  "truthy_str s = (case s of None \<Rightarrow> False | Some t \<Rightarrow> t \<noteq> [])"

definition bind_err :: "py_error + 'a \<Rightarrow> ('a \<Rightarrow> py_error + 'b) \<Rightarrow> py_error + 'b" where
  "bind_err m f = (case m of Inl e \<Rightarrow> Inl e | Inr x \<Rightarrow> f x)"

text \<open>\<^verbatim>\<open>x.get(key, default)\<close>, \<^verbatim>\<open>x[key]\<close>, \<^verbatim>\<open>x[i]\<close>, iteration, \<^verbatim>\<open>len\<close>, \<^verbatim>\<open>float\<close> and \<^verbatim>\<open>int\<close>,
  each with the exception Python raises on a value of the wrong shape. The items of a dict
  have pairwise different keys.\<close>

fun dict_get :: "json \<Rightarrow> string \<Rightarrow> json \<Rightarrow> py_error + json" where
  "dict_get (JObj kvs) key dflt = Inr (case map_of kvs key of None \<Rightarrow> dflt | Some v \<Rightarrow> v)"
| "dict_get _ key dflt = Inl AttributeError"

fun getitem_key :: "json \<Rightarrow> string \<Rightarrow> py_error + json" where
  "getitem_key (JObj kvs) key = (case map_of kvs key of None \<Rightarrow> Inl KeyError | Some v \<Rightarrow> Inr v)"
| "getitem_key _ key = Inl TypeError"

fun getitem_index :: "json \<Rightarrow> nat \<Rightarrow> py_error + json" where
  "getitem_index (JArr xs) i = (if i < length xs then Inr (xs ! i) else Inl IndexError)"
| "getitem_index (JStr s) i = (if i < length s then Inr (JStr [s ! i]) else Inl IndexError)"
| "getitem_index (JObj kvs) i = Inl KeyError"
| "getitem_index _ i = Inl TypeError"

fun iter_items :: "json \<Rightarrow> py_error + json list" where
  "iter_items (JArr xs) = Inr xs"
| "iter_items (JStr s) = Inr (map (\<lambda>c. JStr [c]) s)"
| "iter_items (JObj kvs) = Inr (map (\<lambda>kv. JStr (fst kv)) kvs)"
| "iter_items _ = Inl TypeError"

fun py_len :: "json \<Rightarrow> py_error + nat" where
  "py_len (JArr xs) = Inr (length xs)"
| "py_len (JStr s) = Inr (length s)"
| "py_len (JObj kvs) = Inr (length kvs)"
| "py_len _ = Inl TypeError"

fun py_number :: "json \<Rightarrow> py_error + real" where
  "py_number (JNum x) = Inr x"
| "py_number (JBool b) = Inr (if b then 1 else 0)"
| "py_number _ = Inl TypeError"

fun py_float :: "env \<Rightarrow> json \<Rightarrow> py_error + real" where
  "py_float E (JNum x) = Inr x"
| "py_float E (JBool b) = Inr (if b then 1 else 0)"
| "py_float E (JStr s) = (case float_of_string E s of None \<Rightarrow> Inl ValueError | Some x \<Rightarrow> Inr x)"
| "py_float E _ = Inl TypeError"

definition py_trunc :: "real \<Rightarrow> int" where
  "py_trunc x = (if 0 \<le> x then \<lfloor>x\<rfloor> else \<lceil>x\<rceil>)"

fun py_int :: "env \<Rightarrow> json \<Rightarrow> py_error + int" where
  "py_int E (JNum x) = Inr (py_trunc x)"
| "py_int E (JBool b) = Inr (if b then 1 else 0)"
| "py_int E (JStr s) = (case int_of_string E s of None \<Rightarrow> Inl ValueError | Some x \<Rightarrow> Inr x)"
| "py_int E _ = Inl TypeError"

fun is_dict :: "json \<Rightarrow> bool" where
  "is_dict (JObj kvs) = True"
| "is_dict _ = False"

fun is_list :: "json \<Rightarrow> bool" where
  "is_list (JArr xs) = True"
| "is_list _ = False"

text \<open>\<^verbatim>\<open>d[key] = value\<close> on the items of a dict, and \<^verbatim>\<open>xs[:limit]\<close>.\<close>

fun dict_set :: "string \<Rightarrow> json \<Rightarrow> (string \<times> json) list \<Rightarrow> (string \<times> json) list" where
  "dict_set key v [] = [(key, v)]"
| "dict_set key v (p # ps) = (if fst p = key then (key, v) # ps else p # dict_set key v ps)"

definition py_take :: "int \<Rightarrow> 'a list \<Rightarrow> 'a list" where
  "py_take limit xs =
     (if 0 \<le> limit then take (nat limit) xs else take (length xs - nat (- limit)) xs)"

text \<open>\<^verbatim>\<open>str\<close> of an integer, for the f-strings.\<close>

function str_nat :: "nat \<Rightarrow> string" where
  "str_nat n = (if n < 10 then [''0123456789'' ! n]
                else str_nat (n div 10) @ [''0123456789'' ! (n mod 10)])"
  by pat_completeness auto
termination
  by (relation "measure id") auto

declare str_nat.simps [simp del]

definition str_int :: "int \<Rightarrow> string" where
  "str_int i = (if i < 0 then CHR ''-'' # str_nat (nat (- i)) else str_nat (nat i))"

text \<open>\<^verbatim>\<open>"needle" in text\<close>.\<close>

fun contains :: "string \<Rightarrow> string \<Rightarrow> bool" where
  "contains needle [] = (needle = [])"
| "contains needle (c # cs) = (take (length needle) (c # cs) = needle \<or> contains needle cs)"

text \<open>\<^verbatim>\<open>datetime.fromtimestamp(ts).strftime("%Y-%m-%d")\<close>.\<close>

definition date_str_of :: "env \<Rightarrow> json \<Rightarrow> py_error + string" where
  "date_str_of E ts =
     bind_err (py_number ts)
       (\<lambda>x. case date_of_timestamp E x of None \<Rightarrow> Inl ValueError | Some d \<Rightarrow> Inr d)"

text \<open>A \<^verbatim>\<open>for i, ts in enumerate(timestamps)\<close> loop whose body either raises, skips the row
  (\<^verbatim>\<open>continue\<close>) or appends one record.\<close>

fun collect_rows :: "(nat \<Rightarrow> json \<Rightarrow> py_error + 'a option) \<Rightarrow> nat \<Rightarrow> json list \<Rightarrow> py_error + 'a list" where
  "collect_rows body i [] = Inr []"
| "collect_rows body i (ts # rest) =
     (case body i ts of
        Inl e \<Rightarrow> Inl e
      | Inr row \<Rightarrow>
          (case collect_rows body (Suc i) rest of
             Inl e \<Rightarrow> Inl e
           | Inr rows \<Rightarrow> Inr (case row of None \<Rightarrow> rows | Some r \<Rightarrow> r # rows)))"

section \<open>Finnhub key rotation\<close>

text \<open>\<^verbatim>\<open>_get_next_finnhub_key\<close>: \<^verbatim>\<open>FINNHUB_KEYS[_finnhub_key_index % len(FINNHUB_KEYS)]\<close>,
  then the global index is incremented. With an empty pool the modulus raises.\<close>

definition get_next_finnhub_key :: "env \<Rightarrow> world \<Rightarrow> (py_error + string) \<times> world" where
  "get_next_finnhub_key E w =
     (if FINNHUB_KEYS E = [] then (Inl ZeroDivisionError, w)
      else (Inr (FINNHUB_KEYS E ! nat (finnhub_key_index w mod int (length (FINNHUB_KEYS E)))),
            w\<lparr>finnhub_key_index := finnhub_key_index w + 1\<rparr>))"

text \<open>\<open>n\<close> consecutive calls, collecting the keys they return.\<close>

fun acquire_times :: "env \<Rightarrow> nat \<Rightarrow> world \<Rightarrow> (py_error + string list) \<times> world" where
  "acquire_times E 0 w = (Inr [], w)"
| "acquire_times E (Suc n) w =
     (case get_next_finnhub_key E w of
        (Inl e, w1) \<Rightarrow> (Inl e, w1)
      | (Inr k, w1) \<Rightarrow>
          (case acquire_times E n w1 of
             (Inl e, w2) \<Rightarrow> (Inl e, w2)
           | (Inr ks, w2) \<Rightarrow> (Inr (k # ks), w2)))"

section \<open>The linear-backoff request\<close>

text \<open>\<^verbatim>\<open>_make_api_request\<close>: \<^verbatim>\<open>for attempt in range(max_retries + 1)\<close>; a 429 before the
  last attempt sleeps \<^verbatim>\<open>60 + 30 * attempt\<close> and retries, anything else is returned. The
  transport's exceptions are not caught. When the range is empty the function falls off
  its end and returns \<^verbatim>\<open>None\<close>.\<close>

function make_api_request_loop ::
  "env \<Rightarrow> request \<Rightarrow> int \<Rightarrow> int \<Rightarrow> world \<Rightarrow> (py_error + response option) \<times> world" where
  "make_api_request_loop E req max_retries attempt w =
     (if attempt < max_retries + 1 then
        (let out = fst (http_send E req w); w1 = snd (http_send E req w) in
         case out of
           Raised e \<Rightarrow> (Inl e, w1)
         | Responded r \<Rightarrow>
             if status_code r = 429 \<and> attempt < max_retries
             then make_api_request_loop E req max_retries (attempt + 1)
                    (sleep (60 + 30 * attempt) w1)
             else (Inr (Some r), w1))
      else (Inr None, w))"
  by pat_completeness auto
termination
  by (relation "measure (\<lambda>(E, req, max_retries, attempt, w). nat (max_retries + 1 - attempt))") auto

declare make_api_request_loop.simps [simp del]

text \<open>The call the loop body issues: \<^verbatim>\<open>requests.post(url, headers=headers, json=json_data)\<close>
  when \<^verbatim>\<open>method.upper() == "POST"\<close>, else \<^verbatim>\<open>requests.get(url, headers=headers)\<close>.\<close>

definition outbound_request ::
  "string \<Rightarrow> (string \<times> string) list \<Rightarrow> string \<Rightarrow> json option \<Rightarrow> request" where
  "outbound_request url headers method json_data =
     (if upper method = ''POST''
      then \<lparr>req_method = ''POST'', req_url = url, req_params = [], req_headers = headers,
            req_json = json_data\<rparr>
      else \<lparr>req_method = ''GET'', req_url = url, req_params = [], req_headers = headers,
            req_json = None\<rparr>)"

definition make_api_request ::
  "env \<Rightarrow> string \<Rightarrow> (string \<times> string) list \<Rightarrow> string \<Rightarrow> json option \<Rightarrow> int \<Rightarrow> world
   \<Rightarrow> (py_error + response option) \<times> world" where
  "make_api_request E url headers method json_data max_retries w =
     make_api_request_loop E (outbound_request url headers method json_data) max_retries 0 w"

section \<open>The rotating-credential request\<close>

text \<open>\<^verbatim>\<open>_finnhub_request\<close>: \<^verbatim>\<open>for attempt in range(max_retries * len(FINNHUB_KEYS))\<close>, counted down
  here. Each pass takes the next key and writes it into \<^verbatim>\<open>params["token"]\<close>. A 200 returns
  the parsed body, or \<^verbatim>\<open>None\<close> when parsing raises or the body is a dict with a true
  \<^verbatim>\<open>"error"\<close>; a 429 records the key, sleeps 5 and forgets the recorded keys once all have
  been tried, and goes on; a timeout goes on; every other status or exception returns
  \<^verbatim>\<open>None\<close>. The key is taken outside the \<^verbatim>\<open>try\<close>. \<^verbatim>\<open>None\<close> is \<open>JNull\<close>.\<close>

fun finnhub_attempts ::
  "env \<Rightarrow> string \<Rightarrow> (string \<times> json) list \<Rightarrow> nat \<Rightarrow> string list \<Rightarrow> world
   \<Rightarrow> (py_error + json) \<times> world" where
  "finnhub_attempts E endpoint params 0 keys_tried w = (Inr JNull, w)"
| "finnhub_attempts E endpoint params (Suc n) keys_tried w =
     (case get_next_finnhub_key E w of
        (Inl e, w1) \<Rightarrow> (Inl e, w1)
      | (Inr key, w1) \<Rightarrow>
          (case http_send E
                  \<lparr>req_method = ''GET'', req_url = ''https://finnhub.io/api/v1/'' @ endpoint,
                   req_params = dict_set ''token'' (JStr key) params, req_headers = [],
                   req_json = None\<rparr> w1 of
             (Raised e, w2) \<Rightarrow>
               if e = Timeout
               then finnhub_attempts E endpoint (dict_set ''token'' (JStr key) params) n
                      keys_tried w2
               else (Inr JNull, w2)
           | (Responded r, w2) \<Rightarrow>
               if status_code r = 200 then
                 (case json_of r of
                    None \<Rightarrow> (Inr JNull, w2)
                  | Some data \<Rightarrow>
                      if (case data of
                            JObj kvs \<Rightarrow> truthy (case map_of kvs ''error'' of
                                                  None \<Rightarrow> JNull | Some v \<Rightarrow> v)
                          | _ \<Rightarrow> False)
                      then (Inr JNull, w2) else (Inr data, w2))
               else if status_code r = 429 then
                 (if length (List.insert key keys_tried) \<ge> length (FINNHUB_KEYS E)
                  then finnhub_attempts E endpoint (dict_set ''token'' (JStr key) params) n
                         [] (sleep 5 w2)
                  else finnhub_attempts E endpoint (dict_set ''token'' (JStr key) params) n
                         (List.insert key keys_tried) w2)
               else (Inr JNull, w2)))"

definition finnhub_request ::
  "env \<Rightarrow> string \<Rightarrow> (string \<times> json) list \<Rightarrow> int \<Rightarrow> world \<Rightarrow> (py_error + json) \<times> world" where
  "finnhub_request E endpoint params max_retries w =
     finnhub_attempts E endpoint params (nat (max_retries * int (length (FINNHUB_KEYS E)))) [] w"

section \<open>Price adapters\<close>

text \<open>The body of the loop of \<^verbatim>\<open>_get_prices_finnhub\<close>: the date of the timestamp, the
  filter on the requested window, then the \<^verbatim>\<open>Price\<close> of row \<open>i\<close>.\<close>

definition finnhub_candle_row ::
  "env \<Rightarrow> string \<Rightarrow> string \<Rightarrow> json \<Rightarrow> json \<Rightarrow> json \<Rightarrow> json \<Rightarrow> json \<Rightarrow> nat \<Rightarrow> json
   \<Rightarrow> py_error + price option" where
  "finnhub_candle_row E start_date end_date opens highs lows closes volumes i ts =
     bind_err (date_str_of E ts) (\<lambda>date_str.
       if date_str < start_date \<or> date_str > end_date then Inr None
       else
         bind_err (bind_err (getitem_index opens i) (py_float E)) (\<lambda>v_open.
         bind_err (bind_err (getitem_index highs i) (py_float E)) (\<lambda>v_high.
         bind_err (bind_err (getitem_index lows i) (py_float E)) (\<lambda>v_low.
         bind_err (bind_err (getitem_index closes i) (py_float E)) (\<lambda>v_close.
         bind_err (bind_err (getitem_index volumes i) (py_int E)) (\<lambda>v_volume.
           Inr (Some \<lparr>p_open = v_open, p_high = v_high, p_low = v_low, p_close = v_close,
                      p_volume = v_volume, p_time = date_str\<rparr>)))))))"

text \<open>What \<^verbatim>\<open>_get_prices_finnhub\<close> does with the answer of the candle endpoint.\<close>

definition finnhub_candles :: "env \<Rightarrow> string \<Rightarrow> string \<Rightarrow> json \<Rightarrow> py_error + price list" where
  "finnhub_candles E start_date end_date data =
     (if \<not> truthy data then Inr []
      else
        bind_err (dict_get data ''s'' JNull) (\<lambda>s.
          if s \<noteq> JStr ''ok'' then Inr []
          else
            bind_err (dict_get data ''t'' (JArr [])) (\<lambda>timestamps.
            bind_err (dict_get data ''o'' (JArr [])) (\<lambda>opens.
            bind_err (dict_get data ''h'' (JArr [])) (\<lambda>highs.
            bind_err (dict_get data ''l'' (JArr [])) (\<lambda>lows.
            bind_err (dict_get data ''c'' (JArr [])) (\<lambda>closes.
            bind_err (dict_get data ''v'' (JArr [])) (\<lambda>volumes.
              if \<not> truthy timestamps then Inr []
              else
                bind_err (iter_items timestamps)
                  (collect_rows
                     (finnhub_candle_row E start_date end_date opens highs lows closes volumes)
                     0)))))))))"

definition get_prices_finnhub_try ::
  "env \<Rightarrow> string \<Rightarrow> string \<Rightarrow> string \<Rightarrow> world \<Rightarrow> (py_error + price list) \<times> world" where
  "get_prices_finnhub_try E ticker start_date end_date w =
     (case strptime E start_date of
        None \<Rightarrow> (Inl ValueError, w)
      | Some start_dt \<Rightarrow>
          (case strptime E end_date of
             None \<Rightarrow> (Inl ValueError, w)
           | Some end_dt \<Rightarrow>
               (case finnhub_request E ''stock/candle''
                       [(''symbol'', JStr ticker), (''resolution'', JStr ''D''),
                        (''from'', JNum (of_int (timestamp_of E start_dt))),
                        (''to'', JNum (of_int (timestamp_of E end_dt + 86400)))] 3 w of
                  (Inl e, w1) \<Rightarrow> (Inl e, w1)
                | (Inr data, w1) \<Rightarrow> (finnhub_candles E start_date end_date data, w1))))"

text \<open>\<^verbatim>\<open>_get_prices_finnhub\<close>: the \<^verbatim>\<open>try\<close> body above, and \<^verbatim>\<open>except Exception: return []\<close>.\<close>

definition get_prices_finnhub ::
  "env \<Rightarrow> string \<Rightarrow> string \<Rightarrow> string \<Rightarrow> world \<Rightarrow> price list \<times> world" where
  "get_prices_finnhub E ticker start_date end_date w =
     (case get_prices_finnhub_try E ticker start_date end_date w of
        (Inl e, w1) \<Rightarrow> ([], w1)
      | (Inr prices, w1) \<Rightarrow> (prices, w1))"

definition YAHOO_USER_AGENT :: string where
  "YAHOO_USER_AGENT = ''Mozilla/5.0 (Macintosh; Intel Mac OS X 10_15_7) AppleWebKit/537.36''"

definition yahoo_range :: "int \<Rightarrow> string" where
  "yahoo_range days_diff =
     (if days_diff \<le> 5 then ''5d''
      else if days_diff \<le> 30 then ''1mo''
      else if days_diff \<le> 90 then ''3mo''
      else if days_diff \<le> 180 then ''6mo''
      else if days_diff \<le> 365 then ''1y''
      else if days_diff \<le> 730 then ''2y''
      else ''5y'')"

text \<open>\<^verbatim>\<open>any(quotes.get(k, [None])[i] is None for k in [...])\<close>, which stops at the first
  \<^verbatim>\<open>None\<close>.\<close>

fun any_is_none :: "json \<Rightarrow> nat \<Rightarrow> string list \<Rightarrow> py_error + bool" where
  "any_is_none quotes i [] = Inr False"
| "any_is_none quotes i (k # ks) =
     bind_err (dict_get quotes k (JArr [JNull])) (\<lambda>column.
     bind_err (getitem_index column i) (\<lambda>v.
       if v = JNull then Inr True else any_is_none quotes i ks))"

definition yahoo_row ::
  "env \<Rightarrow> string \<Rightarrow> string \<Rightarrow> json \<Rightarrow> nat \<Rightarrow> json \<Rightarrow> py_error + price option" where
  "yahoo_row E start_date end_date quotes i ts =
     bind_err (date_str_of E ts) (\<lambda>date_str.
       if date_str < start_date \<or> date_str > end_date then Inr None
       else
         bind_err (any_is_none quotes i [''open'', ''high'', ''low'', ''close'', ''volume''])
           (\<lambda>skip.
           if skip then Inr None
           else
             bind_err (bind_err (bind_err (getitem_key quotes ''open'')
                         (\<lambda>c. getitem_index c i)) (py_float E)) (\<lambda>v_open.
             bind_err (bind_err (bind_err (getitem_key quotes ''high'')
                         (\<lambda>c. getitem_index c i)) (py_float E)) (\<lambda>v_high.
             bind_err (bind_err (bind_err (getitem_key quotes ''low'')
                         (\<lambda>c. getitem_index c i)) (py_float E)) (\<lambda>v_low.
             bind_err (bind_err (bind_err (getitem_key quotes ''close'')
                         (\<lambda>c. getitem_index c i)) (py_float E)) (\<lambda>v_close.
             bind_err (bind_err (bind_err (getitem_key quotes ''volume'')
                         (\<lambda>c. getitem_index c i)) (py_int E)) (\<lambda>v_volume.
               Inr (Some \<lparr>p_open = v_open, p_high = v_high, p_low = v_low,
                          p_close = v_close, p_volume = v_volume, p_time = date_str\<rparr>))))))))"

text \<open>What \<^verbatim>\<open>_get_prices_yahoo\<close> does with the parsed body of a 200 answer.\<close>

definition yahoo_chart :: "env \<Rightarrow> string \<Rightarrow> string \<Rightarrow> json \<Rightarrow> py_error + price list" where
  "yahoo_chart E start_date end_date data =
     bind_err (dict_get data ''chart'' (JObj [])) (\<lambda>chart.
     bind_err (dict_get chart ''result'' JNull) (\<lambda>found.
       if \<not> truthy found then Inr []
       else
         bind_err (getitem_key data ''chart'') (\<lambda>chart1.
         bind_err (getitem_key chart1 ''result'') (\<lambda>results.
         bind_err (getitem_index results 0) (\<lambda>result.
         bind_err (dict_get result ''timestamp'' (JArr [])) (\<lambda>timestamps.
         bind_err (dict_get result ''indicators'' (JObj [])) (\<lambda>indicators.
         bind_err (dict_get indicators ''quote'' (JArr [JObj []])) (\<lambda>quote.
         bind_err (getitem_index quote 0) (\<lambda>quotes.
           if \<not> truthy timestamps \<or> \<not> truthy quotes then Inr []
           else
             bind_err (iter_items timestamps)
               (collect_rows (yahoo_row E start_date end_date quotes) 0))))))))))"

definition get_prices_yahoo_try ::
  "env \<Rightarrow> string \<Rightarrow> string \<Rightarrow> string \<Rightarrow> world \<Rightarrow> (py_error + price list) \<times> world" where
  "get_prices_yahoo_try E ticker start_date end_date w =
     (case strptime E start_date of
        None \<Rightarrow> (Inl ValueError, w)
      | Some start_dt \<Rightarrow>
          (case strptime E end_date of
             None \<Rightarrow> (Inl ValueError, w)
           | Some end_dt \<Rightarrow>
               (case http_send E
                       \<lparr>req_method = ''GET'',
                        req_url = ''https://query1.finance.yahoo.com/v8/finance/chart/'' @ ticker
                          @ ''?interval=1d&range='' @ yahoo_range (end_dt - start_dt),
                        req_params = [], req_headers = [(''User-Agent'', YAHOO_USER_AGENT)],
                        req_json = None\<rparr> w of
                  (Raised e, w1) \<Rightarrow> (Inl e, w1)
                | (Responded r, w1) \<Rightarrow>
                    if status_code r \<noteq> 200 then (Inr [], w1)
                    else
                      (case json_of r of
                         None \<Rightarrow> (Inl ValueError, w1)
                       | Some data \<Rightarrow> (yahoo_chart E start_date end_date data, w1)))))"

text \<open>\<^verbatim>\<open>_get_prices_yahoo\<close>: the \<^verbatim>\<open>try\<close> body above, and \<^verbatim>\<open>except Exception: return []\<close>.\<close>

definition get_prices_yahoo ::
  "env \<Rightarrow> string \<Rightarrow> string \<Rightarrow> string \<Rightarrow> world \<Rightarrow> price list \<times> world" where
  "get_prices_yahoo E ticker start_date end_date w =
     (case get_prices_yahoo_try E ticker start_date end_date w of
        (Inl e, w1) \<Rightarrow> ([], w1)
      | (Inr prices, w1) \<Rightarrow> (prices, w1))"

section \<open>The price getter\<close>

text \<open>A cache lookup counts as a hit when it returns a non-empty list
  (\<^verbatim>\<open>if cached_data := _cache.get_prices(cache_key)\<close>).\<close>

definition cache_hit :: "'v list option \<Rightarrow> bool" where
  "cache_hit found = (case found of None \<Rightarrow> False | Some cached \<Rightarrow> cached \<noteq> [])"

definition prices_cache_key :: "string \<Rightarrow> string \<Rightarrow> string \<Rightarrow> string" where
  "prices_cache_key ticker start_date end_date = ticker @ ''_'' @ start_date @ ''_'' @ end_date"

text \<open>The part of \<^verbatim>\<open>get_prices\<close> after the cache check: Yahoo, then Finnhub when Yahoo gave
  nothing, and the write to the cache when there is something to write.\<close>

definition fetch_prices ::
  "env \<Rightarrow> string \<Rightarrow> string \<Rightarrow> string \<Rightarrow> world \<Rightarrow> price list \<times> world" where
  "fetch_prices E ticker start_date end_date w =
     (case get_prices_yahoo E ticker start_date end_date w of
        (yahoo_prices, w1) \<Rightarrow>
          (case (if yahoo_prices = [] then get_prices_finnhub E ticker start_date end_date w1
                 else (yahoo_prices, w1)) of
             (prices, w2) \<Rightarrow>
               if prices = [] then ([], w2)
               else (prices,
                     w2\<lparr>prices_cache :=
                          cache_set (prices_cache w2)
                            (prices_cache_key ticker start_date end_date) prices\<rparr>)))"

text \<open>\<^verbatim>\<open>get_prices\<close>; its \<^verbatim>\<open>api_key\<close> argument is never read.\<close>

definition get_prices ::
  "env \<Rightarrow> string \<Rightarrow> string \<Rightarrow> string \<Rightarrow> world \<Rightarrow> price list \<times> world" where
  "get_prices E ticker start_date end_date w =
     (if cache_hit (cache_get (prices_cache w) (prices_cache_key ticker start_date end_date))
      then (the (cache_get (prices_cache w) (prices_cache_key ticker start_date end_date)), w)
      else fetch_prices E ticker start_date end_date w)"

text \<open>A run of calls of \<^verbatim>\<open>get_prices\<close>, one after the other on the same cache, each call
  given as ticker, start date and end date; the results are collected in the order of the
  calls.\<close>

fun get_prices_calls ::
  "env \<Rightarrow> (string \<times> string \<times> string) list \<Rightarrow> world \<Rightarrow> price list list \<times> world" where
  "get_prices_calls E [] w = ([], w)"
| "get_prices_calls E (c # cs) w =
     (case get_prices E (fst c) (fst (snd c)) (snd (snd c)) w of
        (prices, w1) \<Rightarrow>
          (case get_prices_calls E cs w1 of (rest, w2) \<Rightarrow> (prices # rest, w2)))"

text \<open>Every list that the price store holds under the key of a window with
  underscore-free dates lies in that window.\<close>

definition windowed_cache :: "world \<Rightarrow> bool" where
  "windowed_cache w \<longleftrightarrow>
     (\<forall>t s e ps. CHR ''_'' \<notin> set s \<and> CHR ''_'' \<notin> set e
        \<and> prices_cache w (prices_cache_key t s e) = Some ps
        \<longrightarrow> (\<forall>p\<in>set ps. s \<le> p_time p \<and> p_time p \<le> e))"

section \<open>Financial-metrics adapters\<close>

text \<open>\<^verbatim>\<open>x.get(key)\<close>; \<^verbatim>\<open>a or b\<close> where evaluating either side may raise; and \<^verbatim>\<open>x * n\<close> for
  an integer \<open>n\<close>, which repeats a string or a list.\<close>

definition dget :: "json \<Rightarrow> string \<Rightarrow> py_error + json" where
  "dget x key = dict_get x key JNull"

definition or_else :: "py_error + json \<Rightarrow> py_error + json \<Rightarrow> py_error + json" where
  "or_else a b = bind_err a (\<lambda>v. if truthy v then Inr v else b)"

fun py_mul_nat :: "json \<Rightarrow> nat \<Rightarrow> py_error + json" where
  "py_mul_nat (JNum x) n = Inr (JNum (x * real n))"
| "py_mul_nat (JBool b) n = Inr (JNum (if b then real n else 0))"
| "py_mul_nat (JStr s) n = Inr (JStr (concat (replicate n s)))"
| "py_mul_nat (JArr xs) n = Inr (JArr (concat (replicate n xs)))"
| "py_mul_nat _ n = Inl TypeError"

text \<open>The constructor call \<^verbatim>\<open>FinancialMetrics(name=value, ...)\<close>: the arguments are
  evaluated from left to right, the first exception ends the call, and the fields are
  validated.\<close>

fun collect_fields :: "(string \<times> (py_error + json)) list \<Rightarrow> py_error + (string \<times> json) list" where
  "collect_fields [] = Inr []"
| "collect_fields (kw # rest) =
     bind_err (snd kw) (\<lambda>v. bind_err (collect_fields rest) (\<lambda>vs. Inr ((fst kw, v) # vs)))"

definition FinancialMetrics ::
  "env \<Rightarrow> (string \<times> (py_error + json)) list \<Rightarrow> py_error + financial_metrics" where
  "FinancialMetrics E kwargs =
     bind_err (collect_fields kwargs)
       (\<lambda>fields. if valid_metrics E fields then Inr fields else Inl ValidationError)"

text \<open>The record \<^verbatim>\<open>_get_financial_metrics_finnhub\<close> builds from the Finnhub \<^verbatim>\<open>metric\<close> dict
  and the two FMP dicts.\<close>

definition finnhub_metrics_fields ::
  "string \<Rightarrow> string \<Rightarrow> string \<Rightarrow> json \<Rightarrow> json \<Rightarrow> json \<Rightarrow> json \<Rightarrow> json
   \<Rightarrow> (string \<times> (py_error + json)) list" where
  "finnhub_metrics_fields ticker end_date period currency market_cap metric fmp_ratios
     fmp_keymetrics =
       [
        (''ticker'', Inr (JStr ticker)),
        (''report_period'', Inr (JStr end_date)),
        (''period'', Inr (JStr period)),
        (''currency'', Inr currency),
        (''market_cap'', Inr market_cap),
        (''enterprise_value'', dget metric ''enterpriseValue''),
        (''price_to_earnings_ratio'', or_else (dget metric ''peNormalizedAnnual'') (dget metric ''peTTM'')),
        (''price_to_book_ratio'', or_else (dget metric ''pbQuarterly'') (dget metric ''pbAnnual'')),
        (''price_to_sales_ratio'', or_else (dget metric ''psTTM'') (dget metric ''psAnnual'')),
        (''enterprise_value_to_ebitda_ratio'', dget metric ''currentEv/freeCashFlowTTM''),
        (''enterprise_value_to_revenue_ratio'', dget fmp_keymetrics ''evToSales''),
        (''free_cash_flow_yield'', or_else (dget metric ''freeCashFlowYieldTTM'') (dget fmp_keymetrics ''freeCashFlowYield'')),
        (''peg_ratio'', or_else (dget metric ''pegRatio'') (dget fmp_ratios ''priceToEarningsGrowthRatio'')),
        (''gross_margin'', or_else (dget metric ''grossMarginTTM'') (dget fmp_ratios ''grossProfitMargin'')),
        (''operating_margin'', or_else (dget metric ''operatingMarginTTM'') (dget fmp_ratios ''operatingProfitMargin'')),
        (''net_margin'', or_else (dget metric ''netProfitMarginTTM'') (dget fmp_ratios ''netProfitMargin'')),
        (''return_on_equity'', or_else (dget metric ''roeTTM'') (or_else (dget metric ''roeRfy'') (dget fmp_keymetrics ''returnOnEquity''))),
        (''return_on_assets'', or_else (dget metric ''roaTTM'') (or_else (dget metric ''roaRfy'') (dget fmp_keymetrics ''returnOnAssets''))),
        (''return_on_invested_capital'', or_else (dget metric ''roicTTM'') (dget fmp_keymetrics ''returnOnInvestedCapital'')),
        (''asset_turnover'', or_else (dget metric ''assetTurnoverTTM'') (dget fmp_ratios ''assetTurnover'')),
        (''inventory_turnover'', or_else (dget metric ''inventoryTurnoverTTM'') (dget fmp_ratios ''inventoryTurnover'')),
        (''receivables_turnover'', or_else (dget metric ''receivablesTurnoverTTM'') (dget fmp_ratios ''receivablesTurnover'')),
        (''days_sales_outstanding'', dget fmp_keymetrics ''daysOfSalesOutstanding''),
        (''operating_cycle'', dget fmp_keymetrics ''operatingCycle''),
        (''working_capital_turnover'', dget fmp_ratios ''workingCapitalTurnoverRatio''),
        (''current_ratio'', or_else (dget metric ''currentRatioQuarterly'') (or_else (dget metric ''currentRatioAnnual'') (dget fmp_ratios ''currentRatio''))),
        (''quick_ratio'', or_else (dget metric ''quickRatioQuarterly'') (or_else (dget metric ''quickRatioAnnual'') (dget fmp_ratios ''quickRatio''))),
        (''cash_ratio'', or_else (dget metric ''cashRatioQuarterly'') (dget fmp_ratios ''cashRatio'')),
        (''operating_cash_flow_ratio'', dget fmp_ratios ''operatingCashFlowRatio''),
        (''debt_to_equity'', or_else (dget metric ''totalDebt/totalEquityQuarterly'') (dget fmp_ratios ''debtToEquityRatio'')),
        (''debt_to_assets'', dget fmp_ratios ''debtToAssetsRatio''),
        (''interest_coverage'', dget fmp_ratios ''interestCoverageRatio''),
        (''revenue_growth'', or_else (dget metric ''revenueGrowthQuarterlyYoy'') (dget metric ''revenueGrowth3Y'')),
        (''earnings_growth'', or_else (dget metric ''epsGrowthQuarterlyYoy'') (dget metric ''epsGrowth3Y'')),
        (''book_value_growth'', dget metric ''bookValueShareGrowth5Y''),
        (''earnings_per_share_growth'', dget metric ''epsGrowth5Y''),
        (''free_cash_flow_growth'', dget metric ''freeCashFlowGrowth5Y''),
        (''operating_income_growth'', dget metric ''ebitdaGrowth5Y''),
        (''ebitda_growth'', dget metric ''ebitdaGrowth5Y''),
        (''payout_ratio'', or_else (dget metric ''payoutRatioTTM'') (dget fmp_ratios ''dividendPayoutRatio'')),
        (''earnings_per_share'', or_else (dget metric ''epsTTM'') (dget fmp_ratios ''netIncomePerShare'')),
        (''book_value_per_share'', or_else (dget metric ''bookValuePerShareQuarterly'') (dget fmp_ratios ''bookValuePerShare'')),
        (''free_cash_flow_per_share'', or_else (dget metric ''freeCashFlowPerShareTTM'') (dget fmp_ratios ''freeCashFlowPerShare''))
       ]"

text \<open>\<^verbatim>\<open>profile_data.get("marketCapitalization", 0) * 1_000_000 if profile_data else None\<close>
  and \<^verbatim>\<open>profile_data.get("currency", "USD") if profile_data else "USD"\<close>.\<close>

definition profile_market_cap :: "json \<Rightarrow> py_error + json" where
  "profile_market_cap profile_data =
     (if truthy profile_data
      then bind_err (dict_get profile_data ''marketCapitalization'' (JNum 0))
             (\<lambda>v. py_mul_nat v 1000000)
      else Inr JNull)"

definition profile_currency :: "json \<Rightarrow> py_error + json" where
  "profile_currency profile_data =
     (if truthy profile_data then dict_get profile_data ''currency'' (JStr ''USD'')
      else Inr (JStr ''USD''))"

text \<open>\<^verbatim>\<open>needs_fmp\<close>: an FMP key is configured and one of three Finnhub metrics is
  \<^verbatim>\<open>None\<close>.\<close>

definition needs_fmp :: "env \<Rightarrow> json \<Rightarrow> py_error + bool" where
  "needs_fmp E metric =
     (if \<not> truthy_str (FMP_API_KEY E) then Inr False
      else
        bind_err (dget metric ''pegRatio'') (\<lambda>a.
          if a = JNull then Inr True
          else
            bind_err (dget metric ''roicTTM'') (\<lambda>b.
              if b = JNull then Inr True
              else bind_err (dget metric ''freeCashFlowPerShareTTM'') (\<lambda>c. Inr (c = JNull)))))"

definition get_request :: "string \<Rightarrow> request" where
  "get_request url = \<lparr>req_method = ''GET'', req_url = url, req_params = [], req_headers = [],
                      req_json = None\<rparr>"

text \<open>\<^verbatim>\<open>data[0]\<close> when \<^verbatim>\<open>data\<close> is a non-empty list, else the value the variable had.\<close>

definition first_row :: "json \<Rightarrow> json \<Rightarrow> json" where
  "first_row data dflt = (case data of JArr (x # xs) \<Rightarrow> x | _ \<Rightarrow> dflt)"

text \<open>The inner \<^verbatim>\<open>try\<close> of the supplement: the two FMP calls, the write of the raw answer
  to the cache, and \<^verbatim>\<open>except: pass\<close>, which keeps what was assigned before the
  exception.\<close>

definition fmp_fetch_supplement :: "env \<Rightarrow> string \<Rightarrow> world \<Rightarrow> (json \<times> json) \<times> world" where
  "fmp_fetch_supplement E ticker w =
     (case http_send E
             (get_request (''https://financialmodelingprep.com/stable/ratios?symbol='' @ ticker
                @ ''&apikey='' @ the (FMP_API_KEY E))) w of
        (Raised e, w1) \<Rightarrow> ((JObj [], JObj []), w1)
      | (Responded ratios_resp, w1) \<Rightarrow>
          if status_code ratios_resp = 200 \<and> json_of ratios_resp = None
          then ((JObj [], JObj []), w1)
          else
            (let fmp_ratios =
                   (if status_code ratios_resp = 200
                    then first_row (the (json_of ratios_resp)) (JObj []) else JObj [])
             in case http_send E
                       (get_request (''https://financialmodelingprep.com/stable/key-metrics?symbol=''
                          @ ticker @ ''&apikey='' @ the (FMP_API_KEY E))) w1 of
                  (Raised e, w2) \<Rightarrow> ((fmp_ratios, JObj []), w2)
                | (Responded km_resp, w2) \<Rightarrow>
                    if status_code km_resp = 200 \<and> json_of km_resp = None
                    then ((fmp_ratios, JObj []), w2)
                    else
                      (let fmp_keymetrics =
                             (if status_code km_resp = 200
                              then first_row (the (json_of km_resp)) (JObj []) else JObj [])
                       in ((fmp_ratios, fmp_keymetrics),
                           if truthy fmp_ratios \<or> truthy fmp_keymetrics
                           then w2\<lparr>financial_metrics_cache :=
                                     cache_set (financial_metrics_cache w2)
                                       (''fmp_supplement_'' @ ticker)
                                       [JObj [(''ratios'', fmp_ratios),
                                              (''keymetrics'', fmp_keymetrics)]]\<rparr>
                           else w2))))"

text \<open>The \<^verbatim>\<open>if needs_fmp:\<close> block: the cached supplement when there is one, else the
  calls above.\<close>

definition fmp_supplement ::
  "env \<Rightarrow> string \<Rightarrow> world \<Rightarrow> (py_error + json \<times> json) \<times> world" where
  "fmp_supplement E ticker w =
     (if cache_hit (cache_get (financial_metrics_cache w) (''fmp_supplement_'' @ ticker))
      then
        (bind_err
           (dict_get (hd (the (cache_get (financial_metrics_cache w)
                                 (''fmp_supplement_'' @ ticker)))) ''ratios'' (JObj []))
           (\<lambda>fmp_ratios.
              bind_err
                (dict_get (hd (the (cache_get (financial_metrics_cache w)
                                      (''fmp_supplement_'' @ ticker)))) ''keymetrics'' (JObj []))
                (\<lambda>fmp_keymetrics. Inr (fmp_ratios, fmp_keymetrics))), w)
      else (case fmp_fetch_supplement E ticker w of (found, w1) \<Rightarrow> (Inr found, w1)))"

definition get_financial_metrics_finnhub_try ::
  "env \<Rightarrow> string \<Rightarrow> string \<Rightarrow> string \<Rightarrow> int \<Rightarrow> world
   \<Rightarrow> (py_error + financial_metrics list) \<times> world" where
  "get_financial_metrics_finnhub_try E ticker end_date period limit w =
     (case finnhub_request E ''stock/metric''
             [(''symbol'', JStr ticker), (''metric'', JStr ''all'')] 3 w of
        (Inl e, w1) \<Rightarrow> (Inl e, w1)
      | (Inr metrics_data, w1) \<Rightarrow>
          if \<not> truthy metrics_data then (Inr [], w1)
          else
            (case dict_get metrics_data ''metric'' (JObj []) of
               Inl e \<Rightarrow> (Inl e, w1)
             | Inr metric \<Rightarrow>
                 if \<not> truthy metric then (Inr [], w1)
                 else
                   (case finnhub_request E ''stock/profile2'' [(''symbol'', JStr ticker)] 3 w1 of
                      (Inl e, w2) \<Rightarrow> (Inl e, w2)
                    | (Inr profile_data, w2) \<Rightarrow>
                        (case profile_market_cap profile_data of
                           Inl e \<Rightarrow> (Inl e, w2)
                         | Inr market_cap \<Rightarrow>
                             (case profile_currency profile_data of
                                Inl e \<Rightarrow> (Inl e, w2)
                              | Inr currency \<Rightarrow>
                                  (case needs_fmp E metric of
                                     Inl e \<Rightarrow> (Inl e, w2)
                                   | Inr need \<Rightarrow>
                                       (case (if need then fmp_supplement E ticker w2
                                              else (Inr (JObj [], JObj []), w2)) of
                                          (Inl e, w3) \<Rightarrow> (Inl e, w3)
                                        | (Inr (fmp_ratios, fmp_keymetrics), w3) \<Rightarrow>
                                            (bind_err
                                               (FinancialMetrics E
                                                  (finnhub_metrics_fields ticker end_date period
                                                     currency market_cap metric fmp_ratios
                                                     fmp_keymetrics))
                                               (\<lambda>metrics. Inr [metrics]), w3))))))))"

text \<open>\<^verbatim>\<open>_get_financial_metrics_finnhub\<close>: the \<^verbatim>\<open>try\<close> body above, and
  \<^verbatim>\<open>except Exception: return []\<close>.\<close>

definition get_financial_metrics_finnhub ::
  "env \<Rightarrow> string \<Rightarrow> string \<Rightarrow> string \<Rightarrow> int \<Rightarrow> world \<Rightarrow> financial_metrics list \<times> world" where
  "get_financial_metrics_finnhub E ticker end_date period limit w =
     (case get_financial_metrics_finnhub_try E ticker end_date period limit w of
        (Inl e, w1) \<Rightarrow> ([], w1)
      | (Inr metrics, w1) \<Rightarrow> (metrics, w1))"


text \<open>The rule the specification words for the field mapping: the ordered provider fields
  of each canonical field (the Finnhub \<^verbatim>\<open>metric\<close> dict first, then the FMP dicts), and the
  first candidate that is present and not null.\<close>

datatype provider_dict = Metric | Ratios | KeyMetrics

definition field_candidates :: "(string \<times> (provider_dict \<times> string) list) list" where
  "field_candidates =
    [
     (''enterprise_value'', [(Metric, ''enterpriseValue'')]),
     (''price_to_earnings_ratio'', [(Metric, ''peNormalizedAnnual''), (Metric, ''peTTM'')]),
     (''price_to_book_ratio'', [(Metric, ''pbQuarterly''), (Metric, ''pbAnnual'')]),
     (''price_to_sales_ratio'', [(Metric, ''psTTM''), (Metric, ''psAnnual'')]),
     (''enterprise_value_to_ebitda_ratio'', [(Metric, ''currentEv/freeCashFlowTTM'')]),
     (''enterprise_value_to_revenue_ratio'', [(KeyMetrics, ''evToSales'')]),
     (''free_cash_flow_yield'', [(Metric, ''freeCashFlowYieldTTM''), (KeyMetrics, ''freeCashFlowYield'')]),
     (''peg_ratio'', [(Metric, ''pegRatio''), (Ratios, ''priceToEarningsGrowthRatio'')]),
     (''gross_margin'', [(Metric, ''grossMarginTTM''), (Ratios, ''grossProfitMargin'')]),
     (''operating_margin'', [(Metric, ''operatingMarginTTM''), (Ratios, ''operatingProfitMargin'')]),
     (''net_margin'', [(Metric, ''netProfitMarginTTM''), (Ratios, ''netProfitMargin'')]),
     (''return_on_equity'', [(Metric, ''roeTTM''), (Metric, ''roeRfy''), (KeyMetrics, ''returnOnEquity'')]),
     (''return_on_assets'', [(Metric, ''roaTTM''), (Metric, ''roaRfy''), (KeyMetrics, ''returnOnAssets'')]),
     (''return_on_invested_capital'', [(Metric, ''roicTTM''), (KeyMetrics, ''returnOnInvestedCapital'')]),
     (''asset_turnover'', [(Metric, ''assetTurnoverTTM''), (Ratios, ''assetTurnover'')]),
     (''inventory_turnover'', [(Metric, ''inventoryTurnoverTTM''), (Ratios, ''inventoryTurnover'')]),
     (''receivables_turnover'', [(Metric, ''receivablesTurnoverTTM''), (Ratios, ''receivablesTurnover'')]),
     (''days_sales_outstanding'', [(KeyMetrics, ''daysOfSalesOutstanding'')]),
     (''operating_cycle'', [(KeyMetrics, ''operatingCycle'')]),
     (''working_capital_turnover'', [(Ratios, ''workingCapitalTurnoverRatio'')]),
     (''current_ratio'', [(Metric, ''currentRatioQuarterly''), (Metric, ''currentRatioAnnual''), (Ratios, ''currentRatio'')]),
     (''quick_ratio'', [(Metric, ''quickRatioQuarterly''), (Metric, ''quickRatioAnnual''), (Ratios, ''quickRatio'')]),
     (''cash_ratio'', [(Metric, ''cashRatioQuarterly''), (Ratios, ''cashRatio'')]),
     (''operating_cash_flow_ratio'', [(Ratios, ''operatingCashFlowRatio'')]),
     (''debt_to_equity'', [(Metric, ''totalDebt/totalEquityQuarterly''), (Ratios, ''debtToEquityRatio'')]),
     (''debt_to_assets'', [(Ratios, ''debtToAssetsRatio'')]),
     (''interest_coverage'', [(Ratios, ''interestCoverageRatio'')]),
     (''revenue_growth'', [(Metric, ''revenueGrowthQuarterlyYoy''), (Metric, ''revenueGrowth3Y'')]),
     (''earnings_growth'', [(Metric, ''epsGrowthQuarterlyYoy''), (Metric, ''epsGrowth3Y'')]),
     (''book_value_growth'', [(Metric, ''bookValueShareGrowth5Y'')]),
     (''earnings_per_share_growth'', [(Metric, ''epsGrowth5Y'')]),
     (''free_cash_flow_growth'', [(Metric, ''freeCashFlowGrowth5Y'')]),
     (''operating_income_growth'', [(Metric, ''ebitdaGrowth5Y'')]),
     (''ebitda_growth'', [(Metric, ''ebitdaGrowth5Y'')]),
     (''payout_ratio'', [(Metric, ''payoutRatioTTM''), (Ratios, ''dividendPayoutRatio'')]),
     (''earnings_per_share'', [(Metric, ''epsTTM''), (Ratios, ''netIncomePerShare'')]),
     (''book_value_per_share'', [(Metric, ''bookValuePerShareQuarterly''), (Ratios, ''bookValuePerShare'')]),
     (''free_cash_flow_per_share'', [(Metric, ''freeCashFlowPerShareTTM''), (Ratios, ''freeCashFlowPerShare'')])
    ]"

definition candidate_value :: "json \<Rightarrow> json \<Rightarrow> json \<Rightarrow> provider_dict \<times> string \<Rightarrow> json" where
  "candidate_value metric fmp_ratios fmp_keymetrics c =
     (case dget (case fst c of Metric \<Rightarrow> metric | Ratios \<Rightarrow> fmp_ratios
                 | KeyMetrics \<Rightarrow> fmp_keymetrics) (snd c) of
        Inl e \<Rightarrow> JNull | Inr v \<Rightarrow> v)"

fun first_non_null :: "json list \<Rightarrow> json" where
  "first_non_null [] = JNull"
| "first_non_null (v # vs) = (if v \<noteq> JNull then v else first_non_null vs)"

text \<open>What the code's \<^verbatim>\<open>or\<close> chain takes: the first candidate that is true, and the last
  candidate when none is.\<close>

fun first_truthy :: "json list \<Rightarrow> json" where
  "first_truthy [] = JNull"
| "first_truthy [v] = v"
| "first_truthy (v # vs) = (if truthy v then v else first_truthy vs)"

text \<open>The record of the Finnhub adapter, written with the table: the five fields that are
  passed as they are, then one field per row of the table.\<close>

definition fixed_fields :: "string \<Rightarrow> string \<Rightarrow> string \<Rightarrow> json \<Rightarrow> json \<Rightarrow> (string \<times> json) list" where
  "fixed_fields ticker end_date period currency market_cap =
     [(''ticker'', JStr ticker), (''report_period'', JStr end_date), (''period'', JStr period),
      (''currency'', currency), (''market_cap'', market_cap)]"

definition mapped_fields :: "json \<Rightarrow> json \<Rightarrow> json \<Rightarrow> (string \<times> json) list" where
  "mapped_fields metric fmp_ratios fmp_keymetrics =
     map (\<lambda>fc. (fst fc, first_truthy (map (candidate_value metric fmp_ratios fmp_keymetrics)
                                         (snd fc))))
       field_candidates"

text \<open>\<^verbatim>\<open>requests.get(url, timeout=...)\<close> with the exception it may raise.\<close>

definition http_get :: "env \<Rightarrow> string \<Rightarrow> world \<Rightarrow> (py_error + response) \<times> world" where
  "http_get E url w =
     (case http_send E (get_request url) w of
        (Raised e, w1) \<Rightarrow> (Inl e, w1)
      | (Responded r, w1) \<Rightarrow> (Inr r, w1))"

text \<open>The pieces of \<^verbatim>\<open>_get_financial_metrics_fmp\<close>: the premium check on an answer,
  \<^verbatim>\<open>resp.json() if resp.status_code == 200 else []\<close>,
  \<^verbatim>\<open>xs[i] if i < len(xs) and isinstance(xs, list) else {}\<close>, and the growth of an income
  line over the previous statement.\<close>

definition premium_restricted :: "response \<Rightarrow> bool" where
  "premium_restricted resp =
     (status_code resp = 200
      \<and> (contains ''Premium'' (text_of resp) \<or> contains ''Special'' (text_of resp)))"

definition json_or_empty :: "response \<Rightarrow> py_error + json" where
  "json_or_empty resp =
     (if status_code resp = 200
      then (case json_of resp of None \<Rightarrow> Inl ValueError | Some data \<Rightarrow> Inr data)
      else Inr (JArr []))"

definition row_or_empty :: "json \<Rightarrow> nat \<Rightarrow> py_error + json" where
  "row_or_empty xs i =
     bind_err (py_len xs) (\<lambda>n. if i < n \<and> is_list xs then getitem_index xs i else Inr (JObj []))"

definition growth :: "json \<Rightarrow> json \<Rightarrow> string \<Rightarrow> py_error + json" where
  "growth prev_inc inc key =
     bind_err (dget prev_inc key) (\<lambda>prev_value.
       if \<not> truthy prev_value then Inr JNull
       else
         bind_err (dget inc key) (\<lambda>new_value.
           if \<not> truthy new_value then Inr JNull
           else
             bind_err (py_number new_value) (\<lambda>a.
             bind_err (py_number prev_value) (\<lambda>b. Inr (JNum ((a - b) / \<bar>b\<bar>))))))"

definition fmp_growth :: "json \<Rightarrow> json \<Rightarrow> nat \<Rightarrow> py_error + json \<times> json" where
  "fmp_growth income inc i =
     bind_err (py_len income) (\<lambda>n.
       if i + 1 < n \<and> is_list income
       then
         bind_err (getitem_index income (i + 1)) (\<lambda>prev_inc.
         bind_err (growth prev_inc inc ''revenue'') (\<lambda>revenue_growth.
         bind_err (growth prev_inc inc ''netIncome'') (\<lambda>earnings_growth.
           Inr (revenue_growth, earnings_growth))))
       else Inr (JNull, JNull))"

definition fmp_metrics_fields ::
  "string \<Rightarrow> string \<Rightarrow> string \<Rightarrow> json \<Rightarrow> json \<Rightarrow> json \<Rightarrow> json \<Rightarrow> json \<Rightarrow> json
   \<Rightarrow> (string \<times> (py_error + json)) list" where
  "fmp_metrics_fields ticker end_date period ratio km inc prof revenue_growth earnings_growth =
       [
        (''ticker'', Inr (JStr ticker)),
        (''report_period'', dict_get ratio ''date'' (JStr end_date)),
        (''period'', (if period = ''ttm'' then dict_get ratio ''period'' (JStr ''FY'') else Inr (JStr period))),
        (''currency'', dict_get prof ''currency'' (JStr ''USD'')),
        (''market_cap'', or_else (dget prof ''marketCap'') (dget km ''marketCap'')),
        (''enterprise_value'', dget km ''enterpriseValue''),
        (''price_to_earnings_ratio'', dget ratio ''priceToEarningsRatio''),
        (''price_to_book_ratio'', dget ratio ''priceToBookRatio''),
        (''price_to_sales_ratio'', dget ratio ''priceToSalesRatio''),
        (''enterprise_value_to_ebitda_ratio'', dget km ''evToEBITDA''),
        (''enterprise_value_to_revenue_ratio'', dget km ''evToSales''),
        (''free_cash_flow_yield'', dget km ''freeCashFlowYield''),
        (''peg_ratio'', dget ratio ''priceToEarningsGrowthRatio''),
        (''gross_margin'', dget ratio ''grossProfitMargin''),
        (''operating_margin'', dget ratio ''operatingProfitMargin''),
        (''net_margin'', dget ratio ''netProfitMargin''),
        (''return_on_equity'', dget km ''returnOnEquity''),
        (''return_on_assets'', dget km ''returnOnAssets''),
        (''return_on_invested_capital'', dget km ''returnOnInvestedCapital''),
        (''asset_turnover'', dget ratio ''assetTurnover''),
        (''inventory_turnover'', dget ratio ''inventoryTurnover''),
        (''receivables_turnover'', dget ratio ''receivablesTurnover''),
        (''days_sales_outstanding'', dget km ''daysOfSalesOutstanding''),
        (''operating_cycle'', dget km ''operatingCycle''),
        (''working_capital_turnover'', dget ratio ''workingCapitalTurnoverRatio''),
        (''current_ratio'', dget ratio ''currentRatio''),
        (''quick_ratio'', dget ratio ''quickRatio''),
        (''cash_ratio'', dget ratio ''cashRatio''),
        (''operating_cash_flow_ratio'', dget ratio ''operatingCashFlowRatio''),
        (''debt_to_equity'', dget ratio ''debtToEquityRatio''),
        (''debt_to_assets'', dget ratio ''debtToAssetsRatio''),
        (''interest_coverage'', dget ratio ''interestCoverageRatio''),
        (''revenue_growth'', Inr revenue_growth),
        (''earnings_growth'', Inr earnings_growth),
        (''book_value_growth'', Inr JNull),
        (''earnings_per_share_growth'', Inr JNull),
        (''free_cash_flow_growth'', Inr JNull),
        (''operating_income_growth'', Inr JNull),
        (''ebitda_growth'', Inr JNull),
        (''payout_ratio'', dget ratio ''dividendPayoutRatio''),
        (''earnings_per_share'', or_else (dget ratio ''netIncomePerShare'') (if truthy inc then dget inc ''eps'' else Inr JNull)),
        (''book_value_per_share'', dget ratio ''bookValuePerShare''),
        (''free_cash_flow_per_share'', dget ratio ''freeCashFlowPerShare'')
       ]"

text \<open>The body of the loop over \<^verbatim>\<open>enumerate(ratios[:limit])\<close>.\<close>

definition fmp_row ::
  "env \<Rightarrow> string \<Rightarrow> string \<Rightarrow> string \<Rightarrow> json \<Rightarrow> json \<Rightarrow> json \<Rightarrow> nat \<Rightarrow> json
   \<Rightarrow> py_error + financial_metrics option" where
  "fmp_row E ticker end_date period keymetrics income profile i ratio =
     bind_err (row_or_empty keymetrics i) (\<lambda>km.
     bind_err (row_or_empty income i) (\<lambda>inc.
     bind_err (if truthy profile \<and> is_list profile then getitem_index profile 0
               else Inr (JObj [])) (\<lambda>prof.
     bind_err (fmp_growth income inc i) (\<lambda>g.
     bind_err (FinancialMetrics E
                 (fmp_metrics_fields ticker end_date period ratio km inc prof (fst g) (snd g)))
       (\<lambda>metrics. Inr (Some metrics))))))"

text \<open>What the adapter does with the four answers.\<close>

definition fmp_records ::
  "env \<Rightarrow> string \<Rightarrow> string \<Rightarrow> string \<Rightarrow> int \<Rightarrow> response \<Rightarrow> response \<Rightarrow> response \<Rightarrow> response
   \<Rightarrow> py_error + financial_metrics list" where
  "fmp_records E ticker end_date period limit ratios_resp keymetrics_resp income_resp
     profile_resp =
     (if premium_restricted ratios_resp \<or> premium_restricted keymetrics_resp then Inr []
      else
        bind_err (json_or_empty ratios_resp) (\<lambda>ratios.
        bind_err (json_or_empty keymetrics_resp) (\<lambda>keymetrics.
        bind_err (json_or_empty income_resp) (\<lambda>income.
        bind_err (json_or_empty profile_resp) (\<lambda>profile.
          if \<not> truthy ratios \<or> \<not> is_list ratios then Inr []
          else
            bind_err (iter_items ratios) (\<lambda>rows.
              collect_rows (fmp_row E ticker end_date period keymetrics income profile) 0
                (py_take limit rows)))))))"

definition get_financial_metrics_fmp_try ::
  "env \<Rightarrow> string \<Rightarrow> string \<Rightarrow> string \<Rightarrow> int \<Rightarrow> world
   \<Rightarrow> (py_error + financial_metrics list) \<times> world" where
  "get_financial_metrics_fmp_try E ticker end_date period limit w =
     (case http_get E (''https://financialmodelingprep.com/stable/ratios?symbol='' @ ticker
                        @ ''&apikey='' @ the (FMP_API_KEY E)) w of
        (Inl e, w1) \<Rightarrow> (Inl e, w1)
      | (Inr ratios_resp, w1) \<Rightarrow>
     (case http_get E (''https://financialmodelingprep.com/stable/key-metrics?symbol='' @ ticker
                        @ ''&apikey='' @ the (FMP_API_KEY E)) w1 of
        (Inl e, w2) \<Rightarrow> (Inl e, w2)
      | (Inr keymetrics_resp, w2) \<Rightarrow>
     (case http_get E (''https://financialmodelingprep.com/stable/income-statement?symbol=''
                        @ ticker @ ''&apikey='' @ the (FMP_API_KEY E)) w2 of
        (Inl e, w3) \<Rightarrow> (Inl e, w3)
      | (Inr income_resp, w3) \<Rightarrow>
     (case http_get E (''https://financialmodelingprep.com/stable/profile?symbol='' @ ticker
                        @ ''&apikey='' @ the (FMP_API_KEY E)) w3 of
        (Inl e, w4) \<Rightarrow> (Inl e, w4)
      | (Inr profile_resp, w4) \<Rightarrow>
          (fmp_records E ticker end_date period limit ratios_resp keymetrics_resp income_resp
             profile_resp, w4)))))"

text \<open>\<^verbatim>\<open>_get_financial_metrics_fmp\<close>: nothing without a key; else the \<^verbatim>\<open>try\<close> body above,
  and \<^verbatim>\<open>except Exception: return []\<close>.\<close>

definition get_financial_metrics_fmp ::
  "env \<Rightarrow> string \<Rightarrow> string \<Rightarrow> string \<Rightarrow> int \<Rightarrow> world \<Rightarrow> financial_metrics list \<times> world" where
  "get_financial_metrics_fmp E ticker end_date period limit w =
     (if \<not> truthy_str (FMP_API_KEY E) then ([], w)
      else
        (case get_financial_metrics_fmp_try E ticker end_date period limit w of
           (Inl e, w1) \<Rightarrow> ([], w1)
         | (Inr metrics, w1) \<Rightarrow> (metrics, w1)))"

section \<open>The financial-metrics getter\<close>

definition financial_metrics_cache_key :: "string \<Rightarrow> string \<Rightarrow> string \<Rightarrow> int \<Rightarrow> string" where
  "financial_metrics_cache_key ticker period end_date limit =
     ticker @ ''_'' @ period @ ''_'' @ end_date @ ''_'' @ str_int limit"

text \<open>\<^verbatim>\<open>[FinancialMetrics(**metric) for metric in cached_data]\<close>.\<close>

fun load_metrics :: "env \<Rightarrow> json list \<Rightarrow> py_error + financial_metrics list" where
  "load_metrics E [] = Inr []"
| "load_metrics E (d # ds) =
     bind_err (case d of
                 JObj kvs \<Rightarrow> if valid_metrics E kvs then Inr kvs else Inl ValidationError
               | _ \<Rightarrow> Inl TypeError)
       (\<lambda>m. bind_err (load_metrics E ds) (\<lambda>ms. Inr (m # ms)))"

text \<open>The part of \<^verbatim>\<open>get_financial_metrics\<close> after the cache check: Finnhub, then FMP when
  Finnhub gave nothing, and the write of the dumped records to the cache when there is
  something to write.\<close>

definition fetch_financial_metrics ::
  "env \<Rightarrow> string \<Rightarrow> string \<Rightarrow> string \<Rightarrow> int \<Rightarrow> world \<Rightarrow> financial_metrics list \<times> world" where
  "fetch_financial_metrics E ticker end_date period limit w =
     (case get_financial_metrics_finnhub E ticker end_date period limit w of
        (finnhub_metrics, w1) \<Rightarrow>
          (case (if finnhub_metrics = []
                 then get_financial_metrics_fmp E ticker end_date period limit w1
                 else (finnhub_metrics, w1)) of
             (financial_metrics, w2) \<Rightarrow>
               if financial_metrics = [] then ([], w2)
               else (financial_metrics,
                     w2\<lparr>financial_metrics_cache :=
                          cache_set (financial_metrics_cache w2)
                            (financial_metrics_cache_key ticker period end_date limit)
                            (map JObj financial_metrics)\<rparr>)))"

text \<open>\<^verbatim>\<open>get_financial_metrics\<close>; its \<^verbatim>\<open>api_key\<close> argument is never read.\<close>

definition get_financial_metrics ::
  "env \<Rightarrow> string \<Rightarrow> string \<Rightarrow> string \<Rightarrow> int \<Rightarrow> world
   \<Rightarrow> (py_error + financial_metrics list) \<times> world" where
  "get_financial_metrics E ticker end_date period limit w =
     (if cache_hit (cache_get (financial_metrics_cache w)
                      (financial_metrics_cache_key ticker period end_date limit))
      then (load_metrics E (the (cache_get (financial_metrics_cache w)
                                   (financial_metrics_cache_key ticker period end_date limit))), w)
      else (case fetch_financial_metrics E ticker end_date period limit w of
              (financial_metrics, w1) \<Rightarrow> (Inr financial_metrics, w1)))"

section \<open>Line items\<close>

text \<open>\<^verbatim>\<open>api_key or os.environ.get("FINANCIAL_DATASETS_API_KEY")\<close> and the header it gives.\<close>

definition api_headers :: "env \<Rightarrow> string option \<Rightarrow> (string \<times> string) list" where
  "api_headers E api_key =
     (let financial_api_key =
            (if truthy_str api_key then api_key else FINANCIAL_DATASETS_API_KEY E)
      in if truthy_str financial_api_key then [(''X-API-KEY'', the financial_api_key)] else [])"

text \<open>\<^verbatim>\<open>search_line_items\<close>. The request itself stands outside any \<^verbatim>\<open>try\<close>; reading the
  status of a missing response would raise.\<close>

definition search_line_items ::
  "env \<Rightarrow> string \<Rightarrow> string list \<Rightarrow> string \<Rightarrow> string \<Rightarrow> int \<Rightarrow> string option \<Rightarrow> world
   \<Rightarrow> (py_error + line_item list) \<times> world" where
  "search_line_items E ticker line_items end_date period limit api_key w =
     (case make_api_request E ''https://api.financialdatasets.ai/financials/search/line-items''
             (api_headers E api_key) ''POST''
             (Some (JObj [(''tickers'', JArr [JStr ticker]),
                          (''line_items'', JArr (map JStr line_items)),
                          (''end_date'', JStr end_date), (''period'', JStr period),
                          (''limit'', JNum (of_int limit))])) 3 w of
        (Inl e, w1) \<Rightarrow> (Inl e, w1)
      | (Inr None, w1) \<Rightarrow> (Inl AttributeError, w1)
      | (Inr (Some response), w1) \<Rightarrow>
          if status_code response \<noteq> 200 then (Inr [], w1)
          else
            (case (case json_of response of None \<Rightarrow> None
                   | Some data \<Rightarrow> parse_line_items E data) of
               None \<Rightarrow> (Inr [], w1)
             | Some search_results \<Rightarrow>
                 if search_results = [] then (Inr [], w1)
                 else (Inr (py_take limit search_results), w1)))"

section \<open>Paginated feeds\<close>

text \<open>\<^verbatim>\<open>min(...)\<close> of a non-empty list of strings and \<^verbatim>\<open>.split("T")[0]\<close>.\<close>

definition py_min :: "string list \<Rightarrow> string" where
  "py_min xs = fold min (tl xs) (hd xs)"

definition date_part :: "string \<Rightarrow> string" where
  "date_part s = takeWhile (\<lambda>c. c \<noteq> CHR ''T'') s"

text \<open>
  The \<^verbatim>\<open>while True\<close> loops of \<^verbatim>\<open>get_insider_trades\<close> and \<^verbatim>\<open>get_company_news\<close> are the same
  text up to the URL, the response model and the name of the date field, which are the
  arguments \<open>url_of\<close>, \<open>parse\<close> and \<open>date_of\<close> here. \<open>page_step\<close> is one pass through the loop
  body: \<open>Inl\<close> is how the loop is left (a \<^verbatim>\<open>break\<close> with the records so far, or the exception
  of the request), \<open>Inr\<close> is the state the next pass starts from.
\<close>

definition page_step ::
  "env \<Rightarrow> (string \<Rightarrow> string) \<Rightarrow> (string \<times> string) list \<Rightarrow> (json \<Rightarrow> 'a list option)
   \<Rightarrow> ('a \<Rightarrow> string) \<Rightarrow> string option \<Rightarrow> int \<Rightarrow> 'a list \<Rightarrow> string \<Rightarrow> world
   \<Rightarrow> ((py_error + 'a list) \<times> world) + ('a list \<times> string \<times> world)" where
  "page_step E url_of headers parse date_of start_date limit all_items current_end_date w =
     (case make_api_request E (url_of current_end_date) headers ''GET'' None 3 w of
        (Inl e, w1) \<Rightarrow> Inl (Inl e, w1)
      | (Inr None, w1) \<Rightarrow> Inl (Inl AttributeError, w1)
      | (Inr (Some response), w1) \<Rightarrow>
          if status_code response \<noteq> 200 then Inl (Inr all_items, w1)
          else
            (case (case json_of response of None \<Rightarrow> None | Some data \<Rightarrow> parse data) of
               None \<Rightarrow> Inl (Inr all_items, w1)
             | Some page \<Rightarrow>
                 if page = [] then Inl (Inr all_items, w1)
                 else if \<not> truthy_str start_date \<or> int (length page) < limit
                 then Inl (Inr (all_items @ page), w1)
                 else if date_part (py_min (map date_of page)) \<le> the start_date
                 then Inl (Inr (all_items @ page), w1)
                 else Inr (all_items @ page, date_part (py_min (map date_of page)), w1)))"

text \<open>The loop. It need not end, so its value is an option: \<open>None\<close> is a run that never
  leaves the loop.\<close>

partial_function (option) fetch_pages ::
  "env \<Rightarrow> (string \<Rightarrow> string) \<Rightarrow> (string \<times> string) list \<Rightarrow> (json \<Rightarrow> 'a list option)
   \<Rightarrow> ('a \<Rightarrow> string) \<Rightarrow> string option \<Rightarrow> int \<Rightarrow> 'a list \<Rightarrow> string \<Rightarrow> world
   \<Rightarrow> ((py_error + 'a list) \<times> world) option" where
  "fetch_pages E url_of headers parse date_of start_date limit all_items current_end_date w =
     (case page_step E url_of headers parse date_of start_date limit all_items
             current_end_date w of
        Inl result \<Rightarrow> Some result
      | Inr next_state \<Rightarrow>
          fetch_pages E url_of headers parse date_of start_date limit (fst next_state)
            (fst (snd next_state)) (snd (snd next_state)))"

definition feed_cache_key :: "string \<Rightarrow> string option \<Rightarrow> string \<Rightarrow> int \<Rightarrow> string" where
  "feed_cache_key ticker start_date end_date limit =
     ticker @ ''_'' @ (if truthy_str start_date then the start_date else ''none'') @ ''_''
     @ end_date @ ''_'' @ str_int limit"

definition insider_trades_url :: "string \<Rightarrow> string option \<Rightarrow> int \<Rightarrow> string \<Rightarrow> string" where
  "insider_trades_url ticker start_date limit current_end_date =
     ''https://api.financialdatasets.ai/insider-trades/?ticker='' @ ticker
     @ ''&filing_date_lte='' @ current_end_date
     @ (if truthy_str start_date then ''&filing_date_gte='' @ the start_date else [])
     @ ''&limit='' @ str_int limit"

definition company_news_url :: "string \<Rightarrow> string option \<Rightarrow> int \<Rightarrow> string \<Rightarrow> string" where
  "company_news_url ticker start_date limit current_end_date =
     ''https://api.financialdatasets.ai/news/?ticker='' @ ticker
     @ ''&end_date='' @ current_end_date
     @ (if truthy_str start_date then ''&start_date='' @ the start_date else [])
     @ ''&limit='' @ str_int limit"

text \<open>\<^verbatim>\<open>get_insider_trades\<close> and \<^verbatim>\<open>get_company_news\<close>: the cache check, and after it
  (\<open>fetch_insider_trades\<close>, \<open>fetch_company_news\<close>) the loop and the write to the cache when
  the loop collected something.\<close>

definition fetch_insider_trades ::
  "env \<Rightarrow> string \<Rightarrow> string \<Rightarrow> string option \<Rightarrow> int \<Rightarrow> string option \<Rightarrow> world
   \<Rightarrow> ((py_error + insider_trade list) \<times> world) option" where
  "fetch_insider_trades E ticker end_date start_date limit api_key w =
     (case fetch_pages E (insider_trades_url ticker start_date limit)
             (api_headers E api_key) (parse_insider_trades E) filing_date start_date limit
             [] end_date w of
        None \<Rightarrow> None
      | Some (Inl e, w1) \<Rightarrow> Some (Inl e, w1)
      | Some (Inr all_trades, w1) \<Rightarrow>
          if all_trades = [] then Some (Inr [], w1)
          else Some (Inr all_trades,
                     w1\<lparr>insider_trades_cache :=
                          cache_set (insider_trades_cache w1)
                            (feed_cache_key ticker start_date end_date limit) all_trades\<rparr>))"

definition get_insider_trades ::
  "env \<Rightarrow> string \<Rightarrow> string \<Rightarrow> string option \<Rightarrow> int \<Rightarrow> string option \<Rightarrow> world
   \<Rightarrow> ((py_error + insider_trade list) \<times> world) option" where
  "get_insider_trades E ticker end_date start_date limit api_key w =
     (if cache_hit (cache_get (insider_trades_cache w)
                      (feed_cache_key ticker start_date end_date limit))
      then Some (Inr (the (cache_get (insider_trades_cache w)
                             (feed_cache_key ticker start_date end_date limit))), w)
      else fetch_insider_trades E ticker end_date start_date limit api_key w)"

definition fetch_company_news ::
  "env \<Rightarrow> string \<Rightarrow> string \<Rightarrow> string option \<Rightarrow> int \<Rightarrow> string option \<Rightarrow> world
   \<Rightarrow> ((py_error + company_news list) \<times> world) option" where
  "fetch_company_news E ticker end_date start_date limit api_key w =
     (case fetch_pages E (company_news_url ticker start_date limit)
             (api_headers E api_key) (parse_company_news E) date start_date limit
             [] end_date w of
        None \<Rightarrow> None
      | Some (Inl e, w1) \<Rightarrow> Some (Inl e, w1)
      | Some (Inr all_news, w1) \<Rightarrow>
          if all_news = [] then Some (Inr [], w1)
          else Some (Inr all_news,
                     w1\<lparr>company_news_cache :=
                          cache_set (company_news_cache w1)
                            (feed_cache_key ticker start_date end_date limit) all_news\<rparr>))"

definition get_company_news ::
  "env \<Rightarrow> string \<Rightarrow> string \<Rightarrow> string option \<Rightarrow> int \<Rightarrow> string option \<Rightarrow> world
   \<Rightarrow> ((py_error + company_news list) \<times> world) option" where
  "get_company_news E ticker end_date start_date limit api_key w =
     (if cache_hit (cache_get (company_news_cache w)
                      (feed_cache_key ticker start_date end_date limit))
      then Some (Inr (the (cache_get (company_news_cache w)
                             (feed_cache_key ticker start_date end_date limit))), w)
      else fetch_company_news E ticker end_date start_date limit api_key w)"

section \<open>Signal aggregation\<close>

text \<open>\<^verbatim>\<open>aggregate_signals\<close> of \<^verbatim>\<open>app/backend/routes/n8n_analyze.py\<close>. The confidences are
  Python floats, and the function computes with the interpreter's float arithmetic. That
  arithmetic is a parameter of the embedding, one field per operation the function uses:
  the literal \<^verbatim>\<open>0.0\<close>, the conversion of an integer operand, the true division of two
  integers (\<^verbatim>\<open>bullish_count / total\<close>), \<^verbatim>\<open>sum\<close> over the confidences, \<^verbatim>\<open>/\<close> and \<^verbatim>\<open>*\<close> on
  floats, and \<^verbatim>\<open>round(x, 2)\<close>.\<close>

record 'f float_arith =
  float_zero :: 'f
  float_of_nat :: "nat \<Rightarrow> 'f"
  int_truediv :: "nat \<Rightarrow> nat \<Rightarrow> 'f"
  float_sum :: "'f list \<Rightarrow> 'f"
  float_div :: "'f \<Rightarrow> 'f \<Rightarrow> 'f"
  float_mul :: "'f \<Rightarrow> 'f \<Rightarrow> 'f"
  float_round2 :: "'f \<Rightarrow> 'f"

record 'f agent_result =
  agent :: string
  agent_display_name :: string
  signal :: string
  confidence :: 'f
  reasoning :: "string option"

definition signal_count :: "string \<Rightarrow> 'f agent_result list \<Rightarrow> nat" where
  "signal_count s agent_results = length (filter (\<lambda>r. upper (signal r) = s) agent_results)"

definition aggregate_signals :: "'f float_arith \<Rightarrow> 'f agent_result list \<Rightarrow> string \<times> 'f" where
  "aggregate_signals A agent_results =
     (if agent_results = [] then (''NEUTRAL'', float_zero A)
      else
        let bullish_count = signal_count ''BULLISH'' agent_results;
            bearish_count = signal_count ''BEARISH'' agent_results;
            neutral_count = signal_count ''NEUTRAL'' agent_results;
            total = length agent_results;
            (aggregated_signal, weight) =
              (if bullish_count > bearish_count \<and> bullish_count > neutral_count
               then (''BULLISH'', int_truediv A bullish_count total)
               else if bearish_count > bullish_count \<and> bearish_count > neutral_count
               then (''BEARISH'', int_truediv A bearish_count total)
               else (''NEUTRAL'',
                     int_truediv A (max neutral_count (min bullish_count bearish_count)) total));
            avg_confidence =
              float_div A (float_sum A (map confidence agent_results)) (float_of_nat A total)
        in (aggregated_signal, float_round2 A (float_mul A avg_confidence weight)))"

text \<open>The confidence as the specification words it,
  \<^verbatim>\<open>round(mean_confidence * chosen_count / total, 2)\<close>, the chosen count being the count of
  the signal that is returned.\<close>

definition spec_confidence :: "'f float_arith \<Rightarrow> 'f agent_result list \<Rightarrow> 'f" where
  "spec_confidence A agent_results =
     (let total = length agent_results;
          chosen_count = signal_count (fst (aggregate_signals A agent_results)) agent_results;
          mean_confidence =
            float_div A (float_sum A (map confidence agent_results)) (float_of_nat A total)
      in float_round2 A
           (float_div A (float_mul A mean_confidence (float_of_nat A chosen_count))
              (float_of_nat A total)))"

text \<open>CPython's float arithmetic on finite values, for the examples: a float is the real
  number it denotes, and every operation returns the binary64 value nearest to the exact
  result, ties to the even significand. \<open>bit_length\<close> is \<^verbatim>\<open>int.bit_length\<close>, \<open>binade x\<close> is
  the exponent \<open>e\<close> with \<open>2 ^ e \<le> |x| < 2 ^ (e + 1)\<close>, and the spacing of the doubles
  around \<open>x\<close> is \<open>2 ^ (e - 52)\<close>, or \<open>2 ^ (- 1074)\<close> among the subnormals. \<^verbatim>\<open>round(x, 2)\<close>
  rounds the exact value of \<open>x\<close> to hundredths, ties to even, and returns the nearest
  double. \<^verbatim>\<open>sum\<close> adds from left to right, starting from 0. Results beyond the largest
  double (which Python turns into \<^verbatim>\<open>inf\<close>), infinities and NaN are outside this carrier.\<close>

fun bit_length :: "nat \<Rightarrow> nat" where
  "bit_length n = (if n = 0 then 0 else Suc (bit_length (n div 2)))"

declare bit_length.simps [simp del]

definition round_half_even :: "real \<Rightarrow> int" where
  "round_half_even y =
     (let f = \<lfloor>y\<rfloor>; d = y - of_int f in
      if d < 1 / 2 then f else if 1 / 2 < d then f + 1 else if even f then f else f + 1)"

definition binade :: "real \<Rightarrow> int" where
  "binade x =
     (if 1 \<le> \<bar>x\<bar> then int (bit_length (nat \<lfloor>\<bar>x\<bar>\<rfloor>)) - 1
      else - int (bit_length (nat \<lceil>1 / \<bar>x\<bar>\<rceil> - 1)))"

definition pow2 :: "int \<Rightarrow> real" where
  "pow2 q = (if 0 \<le> q then 2 ^ nat q else 1 / 2 ^ nat (- q))"

definition to_binary64 :: "real \<Rightarrow> real" where
  "to_binary64 x =
     (if x = 0 then 0
      else let q = max (binade x - 52) (- 1074)
           in of_int (round_half_even (x / pow2 q)) * pow2 q)"

definition binary64 :: "real float_arith" where
  "binary64 =
     \<lparr>float_zero = 0,
      float_of_nat = (\<lambda>n. to_binary64 (real n)),
      int_truediv = (\<lambda>a b. to_binary64 (real a / real b)),
      float_sum = foldl (\<lambda>s c. to_binary64 (s + c)) 0,
      float_div = (\<lambda>x y. to_binary64 (x / y)),
      float_mul = (\<lambda>x y. to_binary64 (x * y)),
      float_round2 = (\<lambda>x. to_binary64 (of_int (round_half_even (x * 100)) / 100))\<rparr>"

definition vote :: "string \<Rightarrow> 'f \<Rightarrow> 'f agent_result" where
  "vote s c = \<lparr>agent = ''a'', agent_display_name = ''A'', signal = s, confidence = c,
              reasoning = None\<rparr>"

definition split_vote :: "real agent_result list" where
  "split_vote = [vote ''bullish'' 80, vote ''Bullish'' 80, vote ''BEARISH'' 80, vote ''bearish'' 80]"

section \<open>What a call leaves unchanged\<close>

text \<open>Two predicates for the stores of the cache: \<open>same_caches w w'\<close> says that the four
  stores of \<open>w'\<close> are those of \<open>w\<close>; \<open>same_but key w w'\<close> allows the financial-metrics store
  to differ at the one key \<open>key\<close>.\<close>

definition same_caches :: "world \<Rightarrow> world \<Rightarrow> bool" where
  "same_caches w w' \<longleftrightarrow>
     prices_cache w' = prices_cache w \<and> financial_metrics_cache w' = financial_metrics_cache w
     \<and> insider_trades_cache w' = insider_trades_cache w
     \<and> company_news_cache w' = company_news_cache w"

definition same_but :: "string \<Rightarrow> world \<Rightarrow> world \<Rightarrow> bool" where
  "same_but key w w' \<longleftrightarrow>
     prices_cache w' = prices_cache w
     \<and> (\<forall>k. k \<noteq> key \<longrightarrow> financial_metrics_cache w' k = financial_metrics_cache w k)
     \<and> insider_trades_cache w' = insider_trades_cache w
     \<and> company_news_cache w' = company_news_cache w"

section \<open>Example environments\<close>

text \<open>A world in which nothing has happened yet, and environments whose network gives a
  fixed answer to every call; the closed instances below are evaluated on them.\<close>

definition w0 :: world where
  "w0 = \<lparr>prices_cache = Map.empty, financial_metrics_cache = Map.empty,
          insider_trades_cache = Map.empty, company_news_cache = Map.empty,
          finnhub_key_index = 0, http_log = [], sleep_log = []\<rparr>"

definition test_env :: "(nat \<Rightarrow> request \<Rightarrow> http_outcome) \<Rightarrow> env" where
  "test_env f = \<lparr>net = f, FINNHUB_KEYS = [''k1'', ''k2'', ''k3''], FMP_API_KEY = None,
                 FINANCIAL_DATASETS_API_KEY = None,
                 strptime = (\<lambda>s. if length s = 10 then Some 0 else None),
                 timestamp_of = (\<lambda>d. 86400 * d),
                 date_of_timestamp = (\<lambda>t. if t = 1705276800 then Some ''2024-01-15''
                                          else Some ''2023-12-31''),
                 float_of_string = (\<lambda>s. None), int_of_string = (\<lambda>s. None),
                 valid_metrics = (\<lambda>m. True),
                 parse_line_items = (\<lambda>j. None),
                 parse_insider_trades = (\<lambda>j. None),
                 parse_company_news = (\<lambda>j. None)\<rparr>"

definition status_only :: "int \<Rightarrow> response" where
  "status_only c = \<lparr>status_code = c, text_of = [], json_of = None\<rparr>"

text \<open>A Yahoo answer with one daily bar, on 2024-01-15.\<close>

definition yahoo_body :: json where
  "yahoo_body =
     JObj [(''chart'', JObj [(''result'', JArr [JObj
        [(''timestamp'', JArr [JNum 1705276800]),
         (''indicators'', JObj [(''quote'', JArr [JObj
            [(''open'', JArr [JNum 10]), (''high'', JArr [JNum 12]), (''low'', JArr [JNum 9]),
             (''close'', JArr [JNum 11]), (''volume'', JArr [JNum 1000])]])])]])])]"

definition yahoo_env :: env where
  "yahoo_env =
     test_env (\<lambda>n q. Responded \<lparr>status_code = 200, text_of = [], json_of = Some yahoo_body\<rparr>)"

definition bar :: price where
  "bar = \<lparr>p_open = 10, p_high = 12, p_low = 9, p_close = 11, p_volume = 1000,
          p_time = ''2024-01-15''\<rparr>"



definition full_profile :: json where
  "full_profile = JObj [(''marketCapitalization'', JNum 3000000), (''currency'', JStr ''USD'')]"


text \<open>Providers that answer every call with status 500; and a feed provider whose every
  answer parses to one record dated 2024-03-01.\<close>

definition failing_env :: env where
  "failing_env = test_env (\<lambda>n q. Responded (status_only 500))"




text \<open>Finnhub and FMP together: Finnhub reports a normalized P/E of zero beside a trailing
  P/E of 15 and a return on equity of zero, and no PEG ratio, so that the adapter asks FMP,
  whose key metrics carry a return on equity of 0.3.\<close>

definition zero_metrics :: json where
  "zero_metrics = JObj [(''peNormalizedAnnual'', JNum 0), (''peTTM'', JNum 15),
                         (''roeTTM'', JNum 0)]"

definition supplement_env :: env where
  "supplement_env =
     (test_env (\<lambda>n q. Responded \<lparr>status_code = 200, text_of = [],
        json_of = Some
          (if req_url q = ''https://finnhub.io/api/v1/stock/metric''
           then JObj [(''metric'', zero_metrics)]
           else if req_url q = ''https://finnhub.io/api/v1/stock/profile2''
           then full_profile
           else if req_url q = ''https://financialmodelingprep.com/stable/ratios?symbol=AAPL&apikey=demo''
           then JArr [JObj [(''priceToEarningsGrowthRatio'', JNum (3 / 2))]]
           else JArr [JObj [(''returnOnEquity'', JNum (3 / 10))]])\<rparr>))
       \<lparr>FMP_API_KEY := Some ''demo''\<rparr>"

(* THEOREMS *)

section \<open>Key rotation is round-robin\<close>

lemma acquire_times_eq:
  "FINNHUB_KEYS E \<noteq> [] \<Longrightarrow>
   acquire_times E n w =
     (Inr (map (\<lambda>i. FINNHUB_KEYS E !
                 nat ((finnhub_key_index w + int i) mod int (length (FINNHUB_KEYS E)))) [0..<n]),
      w\<lparr>finnhub_key_index := finnhub_key_index w + int n\<rparr>)"
proof (induction n arbitrary: w)
  case 0
  then show ?case by simp
next
  case (Suc n)
  have "map (\<lambda>i. FINNHUB_KEYS E !
               nat ((finnhub_key_index w + int i) mod int (length (FINNHUB_KEYS E)))) [0..<Suc n]
      = FINNHUB_KEYS E ! nat (finnhub_key_index w mod int (length (FINNHUB_KEYS E)))
        # map (\<lambda>i. FINNHUB_KEYS E !
                 nat ((finnhub_key_index w + 1 + int i) mod int (length (FINNHUB_KEYS E)))) [0..<n]"
    by (simp only: upt_conv_Cons[of 0 "Suc n"] map_Suc_upt[symmetric] list.map)
       (simp add: algebra_simps)
  with Suc show ?case
    by (simp add: get_next_finnhub_key_def algebra_simps)
qed

lemma rotation_index:
  assumes "0 < N"
  shows "nat ((c + int i) mod int N) = (nat (c mod int N) + i) mod N"
proof -
  have "(c + int i) mod int N = (c mod int N + int i) mod int N"
    by (simp add: mod_add_left_eq)
  also have "\<dots> = int ((nat (c mod int N) + i) mod N)"
    using assms by (simp add: zmod_int)
  finally show ?thesis by simp
qed

lemma pool_order:
  assumes "ks \<noteq> []"
  shows "map (\<lambda>i. ks ! nat ((c + int i) mod int (length ks))) [0..<length ks]
         = rotate (nat (c mod int (length ks))) ks"
  using assms
  by (intro nth_equalityI) (simp_all add: nth_rotate rotation_index add.commute)

text \<open>
  Claim C5. With a pool of \<open>N\<close> pairwise different credentials and the counter at any value
  \<open>c\<close>: one call returns \<open>FINNHUB_KEYS[c mod N]\<close> and leaves the counter at \<open>c + 1\<close>; \<open>N\<close>
  consecutive calls return the pool rotated to start at position \<open>c mod N\<close>, which are \<open>N\<close>
  different credentials in pool order; and the call after them returns the same credential
  as the first.
\<close>

theorem key_rotation_round_robin:
  assumes "FINNHUB_KEYS E \<noteq> []" and "distinct (FINNHUB_KEYS E)"
  shows "get_next_finnhub_key E w =
           (Inr (FINNHUB_KEYS E ! nat (finnhub_key_index w mod int (length (FINNHUB_KEYS E)))),
            w\<lparr>finnhub_key_index := finnhub_key_index w + 1\<rparr>)
       \<and> acquire_times E (length (FINNHUB_KEYS E)) w =
           (Inr (rotate (nat (finnhub_key_index w mod int (length (FINNHUB_KEYS E))))
                   (FINNHUB_KEYS E)),
            w\<lparr>finnhub_key_index := finnhub_key_index w + int (length (FINNHUB_KEYS E))\<rparr>)
       \<and> distinct (rotate (nat (finnhub_key_index w mod int (length (FINNHUB_KEYS E))))
                   (FINNHUB_KEYS E))
       \<and> acquire_times E (Suc (length (FINNHUB_KEYS E))) w =
           (Inr (rotate (nat (finnhub_key_index w mod int (length (FINNHUB_KEYS E))))
                   (FINNHUB_KEYS E)
                 @ [hd (rotate (nat (finnhub_key_index w mod int (length (FINNHUB_KEYS E))))
                         (FINNHUB_KEYS E))]),
            w\<lparr>finnhub_key_index := finnhub_key_index w + int (length (FINNHUB_KEYS E)) + 1\<rparr>)"
proof -
  let ?ks = "FINNHUB_KEYS E" and ?c = "finnhub_key_index w"
  let ?N = "length ?ks"
  let ?r = "nat (?c mod int ?N)"
  have pos: "0 < ?N" using assms(1) by simp
  have one: "get_next_finnhub_key E w = (Inr (?ks ! ?r), w\<lparr>finnhub_key_index := ?c + 1\<rparr>)"
    using assms(1) by (simp add: get_next_finnhub_key_def)
  have round: "acquire_times E ?N w = (Inr (rotate ?r ?ks), w\<lparr>finnhub_key_index := ?c + int ?N\<rparr>)"
    using assms(1) by (simp add: acquire_times_eq pool_order)
  have dist: "distinct (rotate ?r ?ks)"
    using assms(2) by simp
  have "?r < ?N" using pos by (simp add: nat_less_iff)
  then have first: "hd (rotate ?r ?ks) = ?ks ! ?r"
    using assms(1) by (simp add: hd_rotate_conv_nth)
  have "map (\<lambda>i. ?ks ! nat ((?c + int i) mod int ?N)) [0..<Suc ?N]
        = map (\<lambda>i. ?ks ! nat ((?c + int i) mod int ?N)) [0..<?N] @ [?ks ! ?r]"
    by simp
  also have "\<dots> = rotate ?r ?ks @ [hd (rotate ?r ?ks)]"
    using first by (simp only: pool_order [OF assms(1)])
  finally have m: "map (\<lambda>i. ?ks ! nat ((?c + int i) mod int ?N)) [0..<Suc ?N]
        = rotate ?r ?ks @ [hd (rotate ?r ?ks)]" .
  have "acquire_times E (Suc ?N) w =
      (Inr (map (\<lambda>i. ?ks ! nat ((?c + int i) mod int ?N)) [0..<Suc ?N]),
       w\<lparr>finnhub_key_index := ?c + int (Suc ?N)\<rparr>)"
    using assms(1) by (rule acquire_times_eq)
  then have again: "acquire_times E (Suc ?N) w =
      (Inr (rotate ?r ?ks @ [hd (rotate ?r ?ks)]), w\<lparr>finnhub_key_index := ?c + int ?N + 1\<rparr>)"
    by (simp only: m) (simp add: algebra_simps del: acquire_times.simps)
  from one round dist again show ?thesis by blast
qed

theorem key_rotation_round_robin_witness:
  "FINNHUB_KEYS (test_env (\<lambda>n q. Raised Timeout)) \<noteq> []
   \<and> distinct (FINNHUB_KEYS (test_env (\<lambda>n q. Raised Timeout)))
   \<and> acquire_times (test_env (\<lambda>n q. Raised Timeout)) 3 (w0\<lparr>finnhub_key_index := 7\<rparr>)
       = (Inr [''k2'', ''k3'', ''k1''], w0\<lparr>finnhub_key_index := 10\<rparr>)
   \<and> fst (acquire_times (test_env (\<lambda>n q. Raised Timeout)) 4 (w0\<lparr>finnhub_key_index := 7\<rparr>))
       = Inr [''k2'', ''k3'', ''k1'', ''k2'']"
proof -
  have h1: "FINNHUB_KEYS (test_env (\<lambda>n q. Raised Timeout)) \<noteq> []"
    by (simp add: test_env_def)
  have h2: "distinct (FINNHUB_KEYS (test_env (\<lambda>n q. Raised Timeout)))"
    by (simp add: test_env_def)
  have r: "rotate (Suc 0) [''k1'', ''k2'', ''k3''] = [''k2'', ''k3'', ''k1'']"
    by (simp add: rotate1_def)
  show ?thesis
    using key_rotation_round_robin [OF h1 h2, of "w0\<lparr>finnhub_key_index := 7\<rparr>"] h1 h2
    by (simp add: test_env_def w0_def r eval_nat_numeral del: acquire_times.simps)
qed

section \<open>The backoff schedule\<close>

lemma loop_retries:
  "\<lbrakk>\<forall>i<k. \<exists>r. net E (length (http_log w) + i) req = Responded r \<and> status_code r = 429;
    a + int k \<le> mr\<rbrakk> \<Longrightarrow>
   make_api_request_loop E req mr a w =
   make_api_request_loop E req mr (a + int k)
     (w\<lparr>http_log := http_log w @ replicate k req,
        sleep_log := sleep_log w @ map (\<lambda>i. 60 + 30 * (a + int i)) [0..<k]\<rparr>)"
proof (induction k arbitrary: a w)
  case 0
  then show ?case by simp
next
  case (Suc k)
  from Suc.prems(1) obtain r
    where r: "net E (length (http_log w)) req = Responded r" "status_code r = 429"
    by force
  let ?w1 = "sleep (60 + 30 * a) (snd (http_send E req w))"
  have len: "length (http_log ?w1) = Suc (length (http_log w))"
    by (simp add: sleep_def http_send_def)
  have step: "make_api_request_loop E req mr a w = make_api_request_loop E req mr (a + 1) ?w1"
    using r Suc.prems(2)
    by (subst make_api_request_loop.simps) (simp add: http_send_def Let_def)
  have "\<forall>i<k. \<exists>r. net E (length (http_log ?w1) + i) req = Responded r \<and> status_code r = 429"
    using Suc.prems(1) len by (metis Suc_less_eq add_Suc_shift)
  moreover have "a + 1 + int k \<le> mr" using Suc.prems(2) by simp
  ultimately have "make_api_request_loop E req mr (a + 1) ?w1 =
     make_api_request_loop E req mr (a + 1 + int k)
       (?w1\<lparr>http_log := http_log ?w1 @ replicate k req,
          sleep_log := sleep_log ?w1 @ map (\<lambda>i. 60 + 30 * (a + 1 + int i)) [0..<k]\<rparr>)"
    by (rule Suc.IH)
  moreover have "map (\<lambda>i. 60 + 30 * (a + int i)) [0..<Suc k]
      = (60 + 30 * a) # map (\<lambda>i. 60 + 30 * (a + 1 + int i)) [0..<k]"
    by (simp only: upt_conv_Cons[of 0 "Suc k"] map_Suc_upt[symmetric] list.map)
       (simp add: algebra_simps)
  ultimately show ?case
    unfolding step
    by (simp add: sleep_def http_send_def replicate_app_Cons_same algebra_simps)
qed

lemma loop_last:
  "\<lbrakk>a \<le> mr; net E (length (http_log w)) req = Responded r; status_code r \<noteq> 429 \<or> a = mr\<rbrakk> \<Longrightarrow>
   make_api_request_loop E req mr a w = (Inr (Some r), w\<lparr>http_log := http_log w @ [req]\<rparr>)"
  by (subst make_api_request_loop.simps) (auto simp add: http_send_def Let_def)

lemma loop_raise:
  "\<lbrakk>a \<le> mr; net E (length (http_log w)) req = Raised e\<rbrakk> \<Longrightarrow>
   make_api_request_loop E req mr a w = (Inl e, w\<lparr>http_log := http_log w @ [req]\<rparr>)"
  by (subst make_api_request_loop.simps) (auto simp add: http_send_def Let_def)

lemma backoff_sorted: "sorted (map (\<lambda>i. 60 + 30 * int i) [0..<k])"
  by (simp add: sorted_map sorted_wrt_iff_nth_less)

text \<open>
  Claim C6. Let the first \<open>k\<close> answers to a request be 429, with \<open>k\<close> at most \<open>max_retries\<close>,
  and let the next answer be a response \<open>r\<close> that is either not a 429 or the answer to the
  last attempt (\<open>k = max_retries\<close>). Then \<^verbatim>\<open>_make_api_request\<close> returns \<open>r\<close> after exactly
  \<open>k + 1\<close> calls, having slept \<open>60 + 30 * i\<close> after attempt \<open>i\<close> for each \<open>i < k\<close> and not after
  the attempt that returned; the delays are non-decreasing.
\<close>

theorem linear_backoff_schedule:
  assumes "int k \<le> max_retries"
    and "\<forall>i<k. \<exists>r. net E (length (http_log w) + i) (outbound_request url headers method json_data)
                      = Responded r \<and> status_code r = 429"
    and "net E (length (http_log w) + k) (outbound_request url headers method json_data)
           = Responded r"
    and "status_code r \<noteq> 429 \<or> int k = max_retries"
  shows "make_api_request E url headers method json_data max_retries w =
           (Inr (Some r),
            w\<lparr>http_log := http_log w
                 @ replicate (Suc k) (outbound_request url headers method json_data),
               sleep_log := sleep_log w @ map (\<lambda>i. 60 + 30 * int i) [0..<k]\<rparr>)
       \<and> sorted (map (\<lambda>i. 60 + 30 * int i) [0..<k])"
proof -
  let ?req = "outbound_request url headers method json_data"
  let ?w = "w\<lparr>http_log := http_log w @ replicate k ?req,
               sleep_log := sleep_log w @ map (\<lambda>i. 60 + 30 * (0 + int i)) [0..<k]\<rparr>"
  have "make_api_request_loop E ?req max_retries 0 w
        = make_api_request_loop E ?req max_retries (0 + int k) ?w"
    using assms(1,2) by (intro loop_retries) simp_all
  also have "\<dots> = (Inr (Some r), ?w\<lparr>http_log := http_log ?w @ [?req]\<rparr>)"
    using assms(1,3,4) by (intro loop_last) simp_all
  finally show ?thesis
    by (simp add: make_api_request_def backoff_sorted replicate_append_same)
qed

theorem linear_backoff_schedule_witness:
  "int 3 \<le> 3
   \<and> net (test_env (\<lambda>n q. Responded (status_only 429))) (length (http_log w0) + 3)
       (outbound_request ''u'' [] ''GET'' None) = Responded (status_only 429)
   \<and> status_code (status_only 429) = 429
   \<and> make_api_request (test_env (\<lambda>n q. Responded (status_only 429))) ''u'' [] ''GET'' None 3 w0
     = (Inr (Some (status_only 429)),
        w0\<lparr>http_log := replicate 4 (outbound_request ''u'' [] ''GET'' None),
           sleep_log := [60, 90, 120]\<rparr>)"
proof -
  let ?E = "test_env (\<lambda>n q. Responded (status_only 429))"
  have h2: "\<forall>i<3. \<exists>r. net ?E (length (http_log w0) + i) (outbound_request ''u'' [] ''GET'' None)
                       = Responded r \<and> status_code r = 429"
    by (simp add: test_env_def status_only_def)
  have h3: "net ?E (length (http_log w0) + 3) (outbound_request ''u'' [] ''GET'' None)
            = Responded (status_only 429)"
    by (simp add: test_env_def)
  have h4: "status_code (status_only 429) \<noteq> 429 \<or> int 3 = 3" by simp
  have u: "[0..<3] = [0, 1, 2]" by (simp add: upt_rec)
  show ?thesis
    using linear_backoff_schedule [of 3 3 ?E w0 "''u''" "[]" "''GET''" None "status_only 429",
        OF _ h2 h3 h4] h3
    by (simp add: w0_def status_only_def u numeral_eq_Suc)
qed

section \<open>Aggregation of agent signals\<close>

lemma upper_examples:
  "upper ''bullish'' = ''BULLISH''" "upper ''Bullish'' = ''BULLISH''"
  "upper ''BEARISH'' = ''BEARISH''" "upper ''bearish'' = ''BEARISH''"
  by (simp_all add: upper_def upper_char_def)

lemma bit_length_numeral:
  "bit_length 0 = 0" "bit_length (Suc 0) = 1" "bit_length 1 = 1"
  "bit_length (numeral k) = Suc (bit_length (numeral k div 2))"
  by (simp_all add: bit_length.simps)

lemma binary64_simps:
  "float_zero binary64 = 0"
  "float_of_nat binary64 n = to_binary64 (real n)"
  "int_truediv binary64 a b = to_binary64 (real a / real b)"
  "float_sum binary64 cs = foldl (\<lambda>s c. to_binary64 (s + c)) 0 cs"
  "float_div binary64 x y = to_binary64 (x / y)"
  "float_mul binary64 x y = to_binary64 (x * y)"
  "float_round2 binary64 x = to_binary64 (of_int (round_half_even (x * 100)) / 100)"
  by (simp_all add: binary64_def)

lemma to_binary64_examples:
  "to_binary64 0 = 0" "to_binary64 4 = 4" "to_binary64 40 = 40" "to_binary64 80 = 80"
  "to_binary64 160 = 160" "to_binary64 240 = 240" "to_binary64 320 = 320"
  "to_binary64 (1 / 2) = 1 / 2" "to_binary64 2 = 2"
  by (simp_all add: to_binary64_def binade_def bit_length_numeral round_half_even_def pow2_def
      Let_def)

lemma split_vote_counts:
  "signal_count ''BULLISH'' split_vote = 2" "signal_count ''BEARISH'' split_vote = 2"
  "signal_count ''NEUTRAL'' split_vote = 0" "split_vote \<noteq> []" "length split_vote = 4"
  by (simp_all add: signal_count_def split_vote_def vote_def upper_examples)

lemma split_vote_mean:
  "float_div binary64 (float_sum binary64 (map confidence split_vote))
     (float_of_nat binary64 4) = 80"
  by (simp add: split_vote_def vote_def binary64_simps to_binary64_examples)

text \<open>The arithmetic of the examples is not exact arithmetic: the double nearest to 10.7,
  halved twice, lies below 2.675, so one bullish vote of 10.7 and one neutral vote of 0
  give a confidence of 2.67.\<close>

lemma rounding_steps:
  "to_binary64 (107 / 10) = 3011782250804019 / 281474976710656"
  "to_binary64 (3011782250804019 / 281474976710656) = 3011782250804019 / 281474976710656"
  "to_binary64 (3011782250804019 / 562949953421312) = 3011782250804019 / 562949953421312"
  "to_binary64 (3011782250804019 / 1125899906842624) = 3011782250804019 / 1125899906842624"
  "to_binary64 (267 / 100) = 1503076375634903 / 562949953421312"
  by (simp_all add: to_binary64_def binade_def bit_length_numeral round_half_even_def pow2_def
      Let_def)

lemma aggregate_signals_rounding_example:
  "aggregate_signals binary64 [vote ''BULLISH'' (to_binary64 (107 / 10)), vote ''NEUTRAL'' 0]
   = (''NEUTRAL'', to_binary64 (267 / 100))"
  unfolding rounding_steps(1)
  by (simp add: aggregate_signals_def signal_count_def vote_def upper_def upper_char_def Let_def
      binary64_simps rounding_steps to_binary64_examples round_half_even_def)

text \<open>
  Claim C10, as the code has it. An empty list gives \<open>("NEUTRAL", 0.0)\<close>. For a non-empty
  list the signal is \<open>"BULLISH"\<close> exactly when the bullish count exceeds both other counts,
  \<open>"BEARISH"\<close> exactly when the bearish count exceeds both other counts, and \<open>"NEUTRAL"\<close>
  otherwise; the confidence is \<^verbatim>\<open>round(avg_confidence * weight, 2)\<close> in the interpreter's
  float arithmetic, whatever that arithmetic is, where \<^verbatim>\<open>avg_confidence\<close> is the sum of the
  confidences over the total and \<^verbatim>\<open>weight\<close> is the winning count over the total for
  \<open>"BULLISH"\<close> and \<open>"BEARISH"\<close>, and \<open>max(neutral_count, min(bullish_count, bearish_count))\<close>
  over the total for \<open>"NEUTRAL"\<close>.
\<close>

theorem aggregate_signals_majority:
  "(agent_results = [] \<longrightarrow> aggregate_signals A agent_results = (''NEUTRAL'', float_zero A))
   \<and> (agent_results \<noteq> [] \<longrightarrow>
       (fst (aggregate_signals A agent_results) = ''BULLISH'' \<longleftrightarrow>
          signal_count ''BULLISH'' agent_results > signal_count ''BEARISH'' agent_results
          \<and> signal_count ''BULLISH'' agent_results > signal_count ''NEUTRAL'' agent_results)
     \<and> (fst (aggregate_signals A agent_results) = ''BEARISH'' \<longleftrightarrow>
          signal_count ''BEARISH'' agent_results > signal_count ''BULLISH'' agent_results
          \<and> signal_count ''BEARISH'' agent_results > signal_count ''NEUTRAL'' agent_results)
     \<and> (fst (aggregate_signals A agent_results) = ''NEUTRAL'' \<longleftrightarrow>
          \<not> (signal_count ''BULLISH'' agent_results > signal_count ''BEARISH'' agent_results
             \<and> signal_count ''BULLISH'' agent_results > signal_count ''NEUTRAL'' agent_results)
          \<and> \<not> (signal_count ''BEARISH'' agent_results > signal_count ''BULLISH'' agent_results
             \<and> signal_count ''BEARISH'' agent_results > signal_count ''NEUTRAL'' agent_results))
     \<and> snd (aggregate_signals A agent_results) =
         float_round2 A
           (float_mul A
              (float_div A (float_sum A (map confidence agent_results))
                 (float_of_nat A (length agent_results)))
              (int_truediv A
                 (if fst (aggregate_signals A agent_results) = ''BULLISH''
                  then signal_count ''BULLISH'' agent_results
                  else if fst (aggregate_signals A agent_results) = ''BEARISH''
                  then signal_count ''BEARISH'' agent_results
                  else max (signal_count ''NEUTRAL'' agent_results)
                         (min (signal_count ''BULLISH'' agent_results)
                              (signal_count ''BEARISH'' agent_results)))
                 (length agent_results))))"
  by (auto simp add: aggregate_signals_def Let_def)

theorem aggregate_signals_majority_witness:
  "split_vote \<noteq> [] \<and> aggregate_signals binary64 split_vote = (''NEUTRAL'', 40)
   \<and> signal_count ''BULLISH'' split_vote = 2 \<and> signal_count ''BEARISH'' split_vote = 2
   \<and> signal_count ''NEUTRAL'' split_vote = 0"
proof -
  note c = split_vote_counts
  have "fst (aggregate_signals binary64 split_vote) = ''NEUTRAL''"
    using aggregate_signals_majority [of split_vote binary64] c by simp
  moreover have "snd (aggregate_signals binary64 split_vote) = 40"
    using aggregate_signals_majority [of split_vote binary64] c split_vote_mean calculation
    by (simp add: binary64_simps to_binary64_examples round_half_even_def)
  ultimately show ?thesis using c by (simp add: prod_eq_iff)
qed

text \<open>The confidence is not the mean times the count of the chosen signal over the total:
  two bullish and two bearish votes of confidence 80 give \<open>"NEUTRAL"\<close> with confidence
  40.0, where the neutral count is 0. Every intermediate value of this run (160, 240, 320,
  80, 0.5, 40) is a double, so the float arithmetic is exact on it.\<close>

theorem aggregate_signals_confidence_counterexample:
  "aggregate_signals binary64 split_vote = (''NEUTRAL'', 40)
   \<and> spec_confidence binary64 split_vote = 0
   \<and> snd (aggregate_signals binary64 split_vote) \<noteq> spec_confidence binary64 split_vote"
proof -
  have a: "aggregate_signals binary64 split_vote = (''NEUTRAL'', 40)"
    using split_vote_counts split_vote_mean
    by (simp add: aggregate_signals_def Let_def binary64_simps to_binary64_examples
        round_half_even_def)
  have "spec_confidence binary64 split_vote = 0"
    using split_vote_counts split_vote_mean
    by (simp add: spec_confidence_def a Let_def binary64_simps to_binary64_examples
        round_half_even_def)
  with a show ?thesis by simp
qed

section \<open>Prices lie in the requested window\<close>

lemma bind_err_Inr: "bind_err m f = Inr y \<longleftrightarrow> (\<exists>x. m = Inr x \<and> f x = Inr y)"
  by (cases m) (simp_all add: bind_err_def)

lemma collect_rows_all:
  assumes "\<And>i ts r. body i ts = Inr (Some r) \<Longrightarrow> P r"
  shows "collect_rows body i tss = Inr rows \<Longrightarrow> \<forall>r\<in>set rows. P r"
proof (induction tss arbitrary: i rows)
  case Nil
  then show ?case by simp
next
  case (Cons ts rest)
  then show ?case using assms
    by (auto split: sum.splits option.splits)
qed

lemma finnhub_candle_row_window:
  "finnhub_candle_row E s e os hs ls cs vs i ts = Inr (Some p) \<Longrightarrow> s \<le> p_time p \<and> p_time p \<le> e"
  by (auto simp add: finnhub_candle_row_def bind_err_Inr split: if_splits)

lemma yahoo_row_window:
  "yahoo_row E s e q i ts = Inr (Some p) \<Longrightarrow> s \<le> p_time p \<and> p_time p \<le> e"
  by (auto simp add: yahoo_row_def bind_err_Inr split: if_splits)

lemma finnhub_rows_window:
  "collect_rows (finnhub_candle_row E s e os hs ls cs vs) i tss = Inr ps
   \<Longrightarrow> \<forall>p\<in>set ps. s \<le> p_time p \<and> p_time p \<le> e"
  by (erule collect_rows_all [rotated]) (rule finnhub_candle_row_window)

lemma yahoo_rows_window:
  "collect_rows (yahoo_row E s e q) i tss = Inr ps
   \<Longrightarrow> \<forall>p\<in>set ps. s \<le> p_time p \<and> p_time p \<le> e"
  by (erule collect_rows_all [rotated]) (rule yahoo_row_window)

lemma finnhub_candles_window:
  "finnhub_candles E s e data = Inr ps \<Longrightarrow> \<forall>p\<in>set ps. s \<le> p_time p \<and> p_time p \<le> e"
  by (auto simp add: finnhub_candles_def bind_err_Inr split: if_splits
      dest!: finnhub_rows_window)

lemma yahoo_chart_window:
  "yahoo_chart E s e data = Inr ps \<Longrightarrow> \<forall>p\<in>set ps. s \<le> p_time p \<and> p_time p \<le> e"
  by (auto simp add: yahoo_chart_def bind_err_Inr split: if_splits
      dest!: yahoo_rows_window)

lemma get_prices_finnhub_window:
  "\<forall>p\<in>set (fst (get_prices_finnhub E t s e w)). s \<le> p_time p \<and> p_time p \<le> e"
  by (auto simp add: get_prices_finnhub_def get_prices_finnhub_try_def
      split: prod.splits sum.splits option.splits dest!: finnhub_candles_window)

lemma get_prices_yahoo_window:
  "\<forall>p\<in>set (fst (get_prices_yahoo E t s e w)). s \<le> p_time p \<and> p_time p \<le> e"
  by (auto simp add: get_prices_yahoo_def get_prices_yahoo_try_def
      split: prod.splits sum.splits option.splits if_splits http_outcome.splits
      dest!: yahoo_chart_window)

lemma fetch_prices_window:
  "\<forall>p\<in>set (fst (fetch_prices E t s e w)). s \<le> p_time p \<and> p_time p \<le> e"
  using get_prices_yahoo_window[of E t s e w]
    get_prices_finnhub_window[of E t s e "snd (get_prices_yahoo E t s e w)"]
  by (auto simp add: fetch_prices_def split: prod.splits if_splits)

lemma yahoo_chart_example:
  "yahoo_chart yahoo_env ''2024-01-01'' ''2024-01-31'' yahoo_body = Inr [bar]"
  by (simp add: yahoo_chart_def yahoo_body_def bind_err_def yahoo_row_def date_str_of_def
      yahoo_env_def test_env_def bar_def py_trunc_def)

lemma get_prices_first_call:
  "get_prices yahoo_env ''A_9'' ''2024-01-01'' ''2024-01-31'' w0 =
   ([bar], w0\<lparr>prices_cache := [''A_9_2024-01-01_2024-01-31'' \<mapsto> [bar]],
              http_log := [\<lparr>req_method = ''GET'',
                req_url = ''https://query1.finance.yahoo.com/v8/finance/chart/A_9?interval=1d&range=5d'',
                req_params = [], req_headers = [(''User-Agent'', YAHOO_USER_AGENT)],
                req_json = None\<rparr>]\<rparr>)"
  using yahoo_chart_example
  by (simp add: get_prices_def fetch_prices_def get_prices_yahoo_def get_prices_yahoo_try_def
      http_send_def cache_hit_def cache_get_def cache_set_def prices_cache_key_def
      yahoo_env_def test_env_def w0_def yahoo_range_def bar_def)

section \<open>The field mapping of the Finnhub adapter\<close>

lemma or_else_Inr: "or_else (Inr a) (Inr b) = Inr (if truthy a then a else b)"
  by (simp add: or_else_def bind_err_def)

lemma dget_dict:
  "dget (JObj kvs) key = Inr (case map_of kvs key of None \<Rightarrow> JNull | Some v \<Rightarrow> v)"
  by (simp add: dget_def)

lemma candidate_dict:
  "candidate_value (JObj m) (JObj r) (JObj k) (Metric, key)
     = (case map_of m key of None \<Rightarrow> JNull | Some v \<Rightarrow> v)"
  "candidate_value (JObj m) (JObj r) (JObj k) (Ratios, key)
     = (case map_of r key of None \<Rightarrow> JNull | Some v \<Rightarrow> v)"
  "candidate_value (JObj m) (JObj r) (JObj k) (KeyMetrics, key)
     = (case map_of k key of None \<Rightarrow> JNull | Some v \<Rightarrow> v)"
  by (simp_all add: candidate_value_def dget_def)

lemma fields_shape:
  "finnhub_metrics_fields ticker end_date period currency market_cap (JObj m) (JObj r) (JObj k)
   = map (\<lambda>kv. (fst kv, Inr (snd kv)))
       (fixed_fields ticker end_date period currency market_cap
        @ mapped_fields (JObj m) (JObj r) (JObj k))"
  by (simp add: field_candidates_def finnhub_metrics_fields_def dget_dict or_else_Inr
      candidate_dict fixed_fields_def mapped_fields_def)

lemma names_distinct:
  "distinct (map fst (fixed_fields ticker end_date period currency market_cap
                      @ mapped_fields metric fmp_ratios fmp_keymetrics))"
  by (simp add: field_candidates_def fixed_fields_def mapped_fields_def comp_def)

lemma collect_fields_Inr: "collect_fields (map (\<lambda>kv. (fst kv, Inr (snd kv))) kvs) = Inr kvs"
  by (induction kvs) (simp_all add: bind_err_def)




lemma mapped_lookup:
  assumes "(f, cs) \<in> set field_candidates"
  shows "map_of (fixed_fields ticker end_date period currency market_cap
                 @ mapped_fields metric fmp_ratios fmp_keymetrics) f
         = Some (first_truthy (map (candidate_value metric fmp_ratios fmp_keymetrics) cs))"
proof -
  have "(f, first_truthy (map (candidate_value metric fmp_ratios fmp_keymetrics) cs))
        \<in> set (fixed_fields ticker end_date period currency market_cap
                 @ mapped_fields metric fmp_ratios fmp_keymetrics)"
    using assms by (force simp add: mapped_fields_def)
  then show ?thesis
    using names_distinct by (rule map_of_is_SomeI [rotated])
qed


lemma first_truthy_rule:
  "first_truthy vs = (case filter truthy vs of [] \<Rightarrow> last (JNull # vs) | v # rest \<Rightarrow> v)"
  by (induction vs rule: first_truthy.induct) (auto split: list.splits)


lemma finnhub_attempt_ok:
  assumes "FINNHUB_KEYS E \<noteq> []" and "0 < n"
    and "net E (length (http_log w))
           \<lparr>req_method = ''GET'', req_url = ''https://finnhub.io/api/v1/'' @ endpoint,
            req_params = dict_set ''token''
              (JStr (FINNHUB_KEYS E !
                 nat (finnhub_key_index w mod int (length (FINNHUB_KEYS E))))) params,
            req_headers = [], req_json = None\<rparr> = Responded r"
    and "status_code r = 200" and "json_of r = Some data"
    and "\<not> (case data of
              JObj kvs \<Rightarrow> truthy (case map_of kvs ''error'' of None \<Rightarrow> JNull | Some v \<Rightarrow> v)
            | _ \<Rightarrow> False)"
  shows "finnhub_attempts E endpoint params n tried w =
     (Inr data,
      w\<lparr>finnhub_key_index := finnhub_key_index w + 1,
         http_log := http_log w @
           [\<lparr>req_method = ''GET'', req_url = ''https://finnhub.io/api/v1/'' @ endpoint,
             req_params = dict_set ''token''
               (JStr (FINNHUB_KEYS E !
                  nat (finnhub_key_index w mod int (length (FINNHUB_KEYS E))))) params,
             req_headers = [], req_json = None\<rparr>]\<rparr>)"
proof -
  from assms(2) obtain n' where n: "n = Suc n'" by (cases n) auto
  show ?thesis
    unfolding n using assms(1,3,4,5,6)
    by (simp add: get_next_finnhub_key_def http_send_def)
qed



lemma metrics_of_dicts:
  "valid_metrics E (fixed_fields ticker end_date period currency market_cap
                      @ mapped_fields (JObj m) (JObj r) (JObj k)) \<Longrightarrow>
   FinancialMetrics E (finnhub_metrics_fields ticker end_date period currency market_cap
      (JObj m) (JObj r) (JObj k))
   = Inr (fixed_fields ticker end_date period currency market_cap
          @ mapped_fields (JObj m) (JObj r) (JObj k))"
  unfolding fields_shape FinancialMetrics_def collect_fields_Inr
  by (simp add: bind_err_def)



lemma pe_row:
  "(''price_to_earnings_ratio'', [(Metric, ''peNormalizedAnnual''), (Metric, ''peTTM'')])
   \<in> set field_candidates"
  by (simp add: field_candidates_def)

section \<open>Fields that no provider supplies\<close>






section \<open>The caches across provider calls\<close>

lemma same_caches_refl [simp]: "same_caches w w"
  by (simp add: same_caches_def)

lemma same_caches_trans: "same_caches w w1 \<Longrightarrow> same_caches w1 w2 \<Longrightarrow> same_caches w w2"
  by (simp add: same_caches_def)

lemma http_send_caches: "same_caches w (snd (http_send E q w))"
  by (simp add: same_caches_def http_send_def)

lemma http_send_caches': "http_send E q w = (out, w1) \<Longrightarrow> same_caches w w1"
  using http_send_caches [of w E q] by simp

lemma sleep_caches: "same_caches w (sleep d w)"
  by (simp add: same_caches_def sleep_def)

lemma next_key_caches: "get_next_finnhub_key E w = (r, w1) \<Longrightarrow> same_caches w w1"
  by (auto simp add: same_caches_def get_next_finnhub_key_def split: if_splits)

lemma finnhub_attempts_caches:
  "finnhub_attempts E endpoint params n tried w = (r, w') \<Longrightarrow> same_caches w w'"
proof (induction n arbitrary: params tried w)
  case 0
  then show ?case by simp
next
  case (Suc n)
  show ?case
  proof (cases "get_next_finnhub_key E w")
    case (Pair kr w1)
    note k = next_key_caches [OF Pair]
    show ?thesis
    proof (cases kr)
      case (Inl e)
      with Suc.prems Pair k show ?thesis by simp
    next
      case (Inr key)
      obtain out w2 where s: "http_send E
                  \<lparr>req_method = ''GET'', req_url = ''https://finnhub.io/api/v1/'' @ endpoint,
                   req_params = dict_set ''token'' (JStr key) params, req_headers = [],
                   req_json = None\<rparr> w1 = (out, w2)" by force
      have c2: "same_caches w w2"
        using k http_send_caches' [OF s] by (rule same_caches_trans)
      have c3: "same_caches w (sleep 5 w2)"
        using c2 sleep_caches by (rule same_caches_trans)
      from Suc.prems Pair Inr s c2 c3 show ?thesis
        by (auto split: http_outcome.splits if_splits option.splits json.splits
            dest!: Suc.IH intro: same_caches_trans)
    qed
  qed
qed

lemma finnhub_request_caches:
  "finnhub_request E endpoint params mr w = (r, w') \<Longrightarrow> same_caches w w'"
  unfolding finnhub_request_def by (rule finnhub_attempts_caches)

lemma make_api_request_loop_caches:
  "same_caches w (snd (make_api_request_loop E req mr a w))"
proof (induction E req mr a w rule: make_api_request_loop.induct)
  case (1 E req max_retries attempt w)
  show ?case
  proof (cases "attempt < max_retries + 1")
    case False
    then show ?thesis by (subst make_api_request_loop.simps) simp
  next
    case True
    have h: "same_caches w (snd (http_send E req w))" by (rule http_send_caches)
    show ?thesis
    proof (cases "fst (http_send E req w)")
      case (Raised e)
      with True h show ?thesis by (subst make_api_request_loop.simps) simp
    next
      case (Responded r)
      show ?thesis
      proof (cases "status_code r = 429 \<and> attempt < max_retries")
        case False
        with True Responded h show ?thesis
          by (subst make_api_request_loop.simps) auto
      next
        case retry: True
        have "same_caches (sleep (60 + 30 * attempt) (snd (http_send E req w)))
                 (snd (make_api_request_loop E req max_retries (attempt + 1)
                    (sleep (60 + 30 * attempt) (snd (http_send E req w)))))"
          using True Responded retry by (intro "1.IH") auto
        with h sleep_caches [of "snd (http_send E req w)" "60 + 30 * attempt"]
        have "same_caches w (snd (make_api_request_loop E req max_retries (attempt + 1)
                    (sleep (60 + 30 * attempt) (snd (http_send E req w)))))"
          by (blast intro: same_caches_trans)
        with True Responded retry show ?thesis
          by (subst make_api_request_loop.simps) simp
      qed
    qed
  qed
qed

lemma make_api_request_caches:
  "make_api_request E url h m j mr w = (r, w') \<Longrightarrow> same_caches w w'"
  using make_api_request_loop_caches [of w E "outbound_request url h m j" mr 0]
  by (simp add: make_api_request_def)

lemma get_prices_yahoo_caches: "same_caches w (snd (get_prices_yahoo E t s e w))"
  by (auto simp add: get_prices_yahoo_def get_prices_yahoo_try_def
      split: prod.splits sum.splits option.splits http_outcome.splits if_splits
      dest: http_send_caches')

lemma get_prices_finnhub_caches: "same_caches w (snd (get_prices_finnhub E t s e w))"
  by (auto simp add: get_prices_finnhub_def get_prices_finnhub_try_def
      split: prod.splits sum.splits option.splits
      dest: finnhub_request_caches)

lemma http_get_caches: "http_get E url w = (r, w1) \<Longrightarrow> same_caches w w1"
  by (auto simp add: http_get_def split: prod.splits http_outcome.splits dest: http_send_caches')

lemma get_financial_metrics_fmp_caches:
  "same_caches w (snd (get_financial_metrics_fmp E t e p l w))"
proof -
  have "same_caches w (snd (get_financial_metrics_fmp_try E t e p l w))"
    by (auto simp add: get_financial_metrics_fmp_try_def
      split: prod.splits sum.splits
      dest!: http_get_caches intro: same_caches_trans)
  then show ?thesis
    by (auto simp add: get_financial_metrics_fmp_def split: prod.splits sum.splits)
qed

lemma same_caches_but: "same_caches w w' \<Longrightarrow> same_but key w w'"
  by (simp add: same_caches_def same_but_def)

lemma same_but_trans: "same_but key w w1 \<Longrightarrow> same_but key w1 w2 \<Longrightarrow> same_but key w w2"
  by (simp add: same_but_def)

lemma fmp_fetch_supplement_but:
  "same_but (''fmp_supplement_'' @ t) w (snd (fmp_fetch_supplement E t w))"
proof -
  have a: "\<And>q w out w1. http_send E q w = (out, w1) \<Longrightarrow> same_but (''fmp_supplement_'' @ t) w w1"
    by (rule same_caches_but) (rule http_send_caches')
  have b: "\<And>w v. same_but (''fmp_supplement_'' @ t) w
        (w\<lparr>financial_metrics_cache := cache_set (financial_metrics_cache w) (''fmp_supplement_'' @ t) v\<rparr>)"
    by (simp add: same_but_def cache_set_def)
  show ?thesis
    unfolding fmp_fetch_supplement_def
    by (auto simp add: Let_def same_but_def cache_set_def
        split: prod.splits http_outcome.splits if_splits dest!: a)
qed

lemma fmp_supplement_but:
  "same_but (''fmp_supplement_'' @ t) w (snd (fmp_supplement E t w))"
  using fmp_fetch_supplement_but [of t w E]
  by (auto simp add: fmp_supplement_def same_but_def split: prod.splits)

lemma get_financial_metrics_finnhub_but:
  "same_but (''fmp_supplement_'' @ t) w (snd (get_financial_metrics_finnhub E t e p l w))"
proof -
  have r: "\<And>ep ps w r w'. finnhub_request E ep ps 3 w = (r, w')
            \<Longrightarrow> same_but (''fmp_supplement_'' @ t) w w'"
    by (rule same_caches_but) (rule finnhub_request_caches)
  have s: "\<And>w r w'. fmp_supplement E t w = (r, w') \<Longrightarrow> same_but (''fmp_supplement_'' @ t) w w'"
    using fmp_supplement_but by (metis snd_conv)
  have "same_but (''fmp_supplement_'' @ t) w (snd (get_financial_metrics_finnhub_try E t e p l w))"
    unfolding get_financial_metrics_finnhub_try_def
    by (auto split: prod.splits sum.splits if_splits dest!: r s
        simp add: same_but_def)
  then show ?thesis
    by (auto simp add: get_financial_metrics_finnhub_def split: prod.splits sum.splits)
qed

lemma page_step_caches:
  "page_step E url_of hdrs parse date_of start limit acc cur w = Inl (r, w') \<Longrightarrow> same_caches w w'"
  "page_step E url_of hdrs parse date_of start limit acc cur w = Inr (acc', cur', w') \<Longrightarrow> same_caches w w'"
  by (auto simp add: page_step_def split: prod.splits sum.splits option.splits if_splits
      dest: make_api_request_caches)

lemma fetch_pages_caches:
  assumes "fetch_pages E url_of hdrs parse date_of start limit acc cur w = Some rw"
  shows "same_caches w (snd rw)"
proof (rule fetch_pages.raw_induct
    [where P = "\<lambda>E url_of hdrs parse date_of start limit acc cur w rw. same_caches w (snd rw)",
     OF _ assms])
  fix loop :: "env \<Rightarrow> (string \<Rightarrow> string) \<Rightarrow> (string \<times> string) list \<Rightarrow> (json \<Rightarrow> 'a list option)
     \<Rightarrow> ('a \<Rightarrow> string) \<Rightarrow> string option \<Rightarrow> int \<Rightarrow> 'a list \<Rightarrow> string \<Rightarrow> world
     \<Rightarrow> ((py_error + 'a list) \<times> world) option"
  fix E url_of hdrs parse date_of start limit acc cur w rw
  assume IH: "\<And>E url_of hdrs parse date_of start limit acc cur w rw.
      loop E url_of hdrs parse date_of start limit acc cur w = Some rw \<Longrightarrow> same_caches w (snd rw)"
  assume step: "(case page_step E url_of hdrs parse date_of start limit acc cur w of
        Inl result \<Rightarrow> Some result
      | Inr next_state \<Rightarrow> loop E url_of hdrs parse date_of start limit (fst next_state)
            (fst (snd next_state)) (snd (snd next_state))) = Some rw"
  show "same_caches w (snd rw)"
  proof (cases "page_step E url_of hdrs parse date_of start limit acc cur w")
    case (Inl res)
    with step have "res = rw" by simp
    with Inl page_step_caches(1) [of E url_of hdrs parse date_of start limit acc cur w "fst rw" "snd rw"]
    show ?thesis by simp
  next
    case (Inr nxt)
    obtain acc' cur' w1 where n: "nxt = (acc', cur', w1)" by (cases nxt) auto
    from Inr n have "same_caches w w1" by (auto dest: page_step_caches(2))
    moreover from step Inr n have "loop E url_of hdrs parse date_of start limit acc' cur' w1 = Some rw"
      by simp
    then have "same_caches w1 (snd rw)" by (rule IH)
    ultimately show ?thesis by (rule same_caches_trans)
  qed
qed

lemma count_key:
  "count_list (financial_metrics_cache_key t p e l) CHR ''_'' \<ge> count_list t CHR ''_'' + 3"
  by (simp add: financial_metrics_cache_key_def)

lemma count_supplement:
  "count_list (''fmp_supplement_'' @ t) CHR ''_'' = count_list t CHR ''_'' + 2"
  by simp

lemma key_not_supplement: "financial_metrics_cache_key t p e l \<noteq> ''fmp_supplement_'' @ t"
proof
  assume "financial_metrics_cache_key t p e l = ''fmp_supplement_'' @ t"
  then have "count_list (financial_metrics_cache_key t p e l) CHR ''_''
             = count_list (''fmp_supplement_'' @ t) CHR ''_''" by simp
  with count_key [of t p e l] count_supplement [of t] show False by linarith
qed

lemma load_metrics_length: "load_metrics E ds = Inr ms \<Longrightarrow> length ms = length ds"
  by (induction ds arbitrary: ms) (auto simp add: bind_err_Inr)







section \<open>Empty results are not cached, non-empty results are\<close>

lemma fetch_prices_frame:
  "fst (fetch_prices E t s e w) = [] \<Longrightarrow> same_caches w (snd (fetch_prices E t s e w))"
  using get_prices_yahoo_caches [of w E t s e]
    get_prices_finnhub_caches [of "snd (get_prices_yahoo E t s e w)" E t s e]
  by (auto simp add: fetch_prices_def split: prod.splits if_splits intro: same_caches_trans)


lemma empty_prices:
  assumes "fst (get_prices E t s e w) = []"
  shows "prices_cache (snd (get_prices E t s e w)) = prices_cache w
       \<and> \<not> cache_hit (cache_get (prices_cache (snd (get_prices E t s e w)))
                          (prices_cache_key t s e))
       \<and> get_prices E t s e (snd (get_prices E t s e w))
           = fetch_prices E t s e (snd (get_prices E t s e w))"
proof -
  have miss: "\<not> cache_hit (cache_get (prices_cache w) (prices_cache_key t s e))"
    using assms by (auto simp add: get_prices_def cache_hit_def split: option.splits if_splits)
  then have g: "get_prices E t s e w = fetch_prices E t s e w"
    by (simp add: get_prices_def)
  with assms have "same_caches w (snd (fetch_prices E t s e w))"
    by (simp add: fetch_prices_frame)
  then have c: "prices_cache (snd (get_prices E t s e w)) = prices_cache w"
    by (simp add: g same_caches_def)
  with miss show ?thesis by (simp add: get_prices_def [of E t s e "snd (get_prices E t s e w)"])
qed


lemma fetch_financial_metrics_frame:
  "fst (fetch_financial_metrics E t e p l w) = [] \<Longrightarrow>
   same_but (''fmp_supplement_'' @ t) w (snd (fetch_financial_metrics E t e p l w))"
  using get_financial_metrics_finnhub_but [of t w E e p l]
    get_financial_metrics_fmp_caches [of "snd (get_financial_metrics_finnhub E t e p l w)" E t e p l]
  by (auto simp add: fetch_financial_metrics_def same_but_def same_caches_def
      split: prod.splits if_splits)

lemma empty_metrics:
  assumes "fst (get_financial_metrics E t e p l w) = Inr []"
  shows "cache_get (financial_metrics_cache (snd (get_financial_metrics E t e p l w)))
           (financial_metrics_cache_key t p e l)
         = cache_get (financial_metrics_cache w) (financial_metrics_cache_key t p e l)
       \<and> \<not> cache_hit (cache_get
              (financial_metrics_cache (snd (get_financial_metrics E t e p l w)))
              (financial_metrics_cache_key t p e l))
       \<and> get_financial_metrics E t e p l (snd (get_financial_metrics E t e p l w))
           = (case fetch_financial_metrics E t e p l (snd (get_financial_metrics E t e p l w)) of
                (financial_metrics, w1) \<Rightarrow> (Inr financial_metrics, w1))"
proof -
  have miss: "\<not> cache_hit (cache_get (financial_metrics_cache w)
                 (financial_metrics_cache_key t p e l))"
  proof
    assume h: "cache_hit (cache_get (financial_metrics_cache w)
                 (financial_metrics_cache_key t p e l))"
    then obtain ds where ds: "cache_get (financial_metrics_cache w)
                 (financial_metrics_cache_key t p e l) = Some ds" "ds \<noteq> []"
      by (auto simp add: cache_hit_def split: option.splits if_splits)
    with h assms have "load_metrics E ds = Inr []" by (simp add: get_financial_metrics_def)
    from load_metrics_length [OF this] ds(2) show False by simp
  qed
  obtain ms w2 where f: "fetch_financial_metrics E t e p l w = (ms, w2)" by force
  with miss have g: "get_financial_metrics E t e p l w = (Inr ms, w2)"
    by (simp add: get_financial_metrics_def)
  with assms have "ms = []" by simp
  with f fetch_financial_metrics_frame [of E t e p l w]
  have "same_but (''fmp_supplement_'' @ t) w w2" by simp
  then have c: "cache_get (financial_metrics_cache w2) (financial_metrics_cache_key t p e l)
         = cache_get (financial_metrics_cache w) (financial_metrics_cache_key t p e l)"
    using key_not_supplement [of t p e l] by (simp add: same_but_def cache_get_def)
  with miss show ?thesis
    by (simp add: g get_financial_metrics_def [of E t e p l w2])
qed


lemma empty_insider_trades:
  assumes "get_insider_trades E t e s l k w = Some (Inr [], w')"
  shows "insider_trades_cache w' = insider_trades_cache w
       \<and> \<not> cache_hit (cache_get (insider_trades_cache w') (feed_cache_key t s e l))
       \<and> get_insider_trades E t e s l k w' = fetch_insider_trades E t e s l k w'"
proof -
  have miss: "\<not> cache_hit (cache_get (insider_trades_cache w) (feed_cache_key t s e l))"
    using assms by (auto simp add: get_insider_trades_def cache_hit_def split: option.splits if_splits)
  with assms have f: "fetch_insider_trades E t e s l k w = Some (Inr [], w')"
    by (simp add: get_insider_trades_def)
  then have "same_caches w w'"
    by (auto simp add: fetch_insider_trades_def split: option.splits prod.splits sum.splits if_splits
        dest!: fetch_pages_caches)
  then have "insider_trades_cache w' = insider_trades_cache w" by (simp add: same_caches_def)
  with miss show ?thesis by (simp add: get_insider_trades_def [of E t e s l k w'])
qed

lemma empty_company_news:
  assumes "get_company_news E t e s l k w = Some (Inr [], w')"
  shows "company_news_cache w' = company_news_cache w
       \<and> \<not> cache_hit (cache_get (company_news_cache w') (feed_cache_key t s e l))
       \<and> get_company_news E t e s l k w' = fetch_company_news E t e s l k w'"
proof -
  have miss: "\<not> cache_hit (cache_get (company_news_cache w) (feed_cache_key t s e l))"
    using assms by (auto simp add: get_company_news_def cache_hit_def split: option.splits if_splits)
  with assms have f: "fetch_company_news E t e s l k w = Some (Inr [], w')"
    by (simp add: get_company_news_def)
  then have "same_caches w w'"
    by (auto simp add: fetch_company_news_def split: option.splits prod.splits sum.splits if_splits
        dest!: fetch_pages_caches)
  then have "company_news_cache w' = company_news_cache w" by (simp add: same_caches_def)
  with miss show ?thesis by (simp add: get_company_news_def [of E t e s l k w'])
qed



text \<open>
  Claim C1. For each of the four getters: when a call returns the empty list, the store of
  its resource kind holds after the call what it held before under the key of the call
  (for prices, insider trades and news the whole store is unchanged; the financial-metrics
  store may have received the raw FMP supplement, under another key), a lookup of that key
  is still a miss, and a second call with the same parameters runs the provider chain
  again: it is the fetch that follows the cache check, not a return from the cache.
\<close>

theorem empty_result_not_cached:
  "(fst (get_prices E ticker start_date end_date w) = [] \<longrightarrow>
      prices_cache (snd (get_prices E ticker start_date end_date w)) = prices_cache w
      \<and> \<not> cache_hit (cache_get (prices_cache (snd (get_prices E ticker start_date end_date w)))
                         (prices_cache_key ticker start_date end_date))
      \<and> get_prices E ticker start_date end_date (snd (get_prices E ticker start_date end_date w))
          = fetch_prices E ticker start_date end_date
              (snd (get_prices E ticker start_date end_date w)))
   \<and> (fst (get_financial_metrics E ticker end_date period limit w) = Inr [] \<longrightarrow>
      cache_get (financial_metrics_cache (snd (get_financial_metrics E ticker end_date period limit w)))
          (financial_metrics_cache_key ticker period end_date limit)
        = cache_get (financial_metrics_cache w)
            (financial_metrics_cache_key ticker period end_date limit)
      \<and> \<not> cache_hit (cache_get
             (financial_metrics_cache (snd (get_financial_metrics E ticker end_date period limit w)))
             (financial_metrics_cache_key ticker period end_date limit))
      \<and> get_financial_metrics E ticker end_date period limit
            (snd (get_financial_metrics E ticker end_date period limit w))
          = (case fetch_financial_metrics E ticker end_date period limit
                    (snd (get_financial_metrics E ticker end_date period limit w)) of
               (financial_metrics, w1) \<Rightarrow> (Inr financial_metrics, w1)))
   \<and> (get_insider_trades E ticker end_date since limit api_key w = Some (Inr [], wi) \<longrightarrow>
      insider_trades_cache wi = insider_trades_cache w
      \<and> \<not> cache_hit (cache_get (insider_trades_cache wi)
                         (feed_cache_key ticker since end_date limit))
      \<and> get_insider_trades E ticker end_date since limit api_key wi
          = fetch_insider_trades E ticker end_date since limit api_key wi)
   \<and> (get_company_news E ticker end_date since limit api_key w = Some (Inr [], wn) \<longrightarrow>
      company_news_cache wn = company_news_cache w
      \<and> \<not> cache_hit (cache_get (company_news_cache wn)
                         (feed_cache_key ticker since end_date limit))
      \<and> get_company_news E ticker end_date since limit api_key wn
          = fetch_company_news E ticker end_date since limit api_key wn)"
  using empty_prices [of E ticker start_date end_date w]
    empty_metrics [of E ticker end_date period limit w]
    empty_insider_trades [of E ticker end_date since limit api_key w wi]
    empty_company_news [of E ticker end_date since limit api_key w wn]
  by blast

lemma failing_env_simps:
  "FINNHUB_KEYS failing_env = [''k1'', ''k2'', ''k3'']"
  "FMP_API_KEY failing_env = None"
  "FINANCIAL_DATASETS_API_KEY failing_env = None"
  "net failing_env n q = Responded (status_only 500)"
  "strptime failing_env s = (if length s = 10 then Some 0 else None)"
  by (simp_all add: failing_env_def test_env_def)

lemma failing_finnhub: "finnhub_request failing_env ep ps 3 w = (r, w') \<Longrightarrow> r = Inr JNull"
  by (auto simp add: finnhub_request_def failing_env_simps eval_nat_numeral get_next_finnhub_key_def
      http_send_def status_only_def)

lemma failing_prices:
  "fst (get_prices failing_env ''AAPL'' ''2024-01-01'' ''2024-01-31'' w0) = []"
proof -
  have y: "\<And>w. fst (get_prices_yahoo failing_env ''AAPL'' ''2024-01-01'' ''2024-01-31'' w) = []"
    by (simp add: get_prices_yahoo_def get_prices_yahoo_try_def failing_env_simps http_send_def
        status_only_def)
  have f: "\<And>w. fst (get_prices_finnhub failing_env ''AAPL'' ''2024-01-01'' ''2024-01-31'' w) = []"
    by (auto simp add: get_prices_finnhub_def get_prices_finnhub_try_def failing_env_simps
        finnhub_candles_def split: prod.splits sum.splits dest!: failing_finnhub)
  have "fst (fetch_prices failing_env ''AAPL'' ''2024-01-01'' ''2024-01-31'' w0) = []"
    by (simp add: fetch_prices_def case_prod_beta y f)
  then show ?thesis
    by (simp add: get_prices_def cache_hit_def cache_get_def w0_def)
qed

lemma failing_metrics:
  "fst (get_financial_metrics failing_env ''AAPL'' ''2024-01-31'' ''ttm'' 10 w0) = Inr []"
proof -
  have a: "\<And>w. fst (get_financial_metrics_finnhub failing_env ''AAPL'' ''2024-01-31'' ''ttm'' 10 w) = []"
    by (auto simp add: get_financial_metrics_finnhub_def get_financial_metrics_finnhub_try_def
        split: prod.splits sum.splits dest!: failing_finnhub)
  have b: "\<And>w. fst (get_financial_metrics_fmp failing_env ''AAPL'' ''2024-01-31'' ''ttm'' 10 w) = []"
    by (simp add: get_financial_metrics_fmp_def failing_env_simps truthy_str_def)
  have "fst (fetch_financial_metrics failing_env ''AAPL'' ''2024-01-31'' ''ttm'' 10 w0) = []"
    by (simp add: fetch_financial_metrics_def case_prod_beta a b)
  then show ?thesis
    by (simp add: get_financial_metrics_def cache_hit_def cache_get_def w0_def case_prod_beta)
qed

lemma failing_pages:
  "fetch_pages failing_env url_of [] parse date_of None 1000 [] ''2024-03-31'' w0
   = Some (Inr [], w0\<lparr>http_log := [outbound_request (url_of ''2024-03-31'') [] ''GET'' None]\<rparr>)"
proof -
  have "make_api_request failing_env (url_of ''2024-03-31'') [] ''GET'' None 3 w0
        = (Inr (Some (status_only 500)),
           w0\<lparr>http_log := http_log w0 @ [outbound_request (url_of ''2024-03-31'') [] ''GET'' None]\<rparr>)"
    unfolding make_api_request_def
    by (rule loop_last) (simp_all add: failing_env_simps status_only_def)
  then show ?thesis
    by (subst fetch_pages.simps) (simp add: page_step_def status_only_def w0_def)
qed

lemma failing_insider_trades:
  "get_insider_trades failing_env ''AAPL'' ''2024-03-31'' None 1000 None w0
   = Some (Inr [], w0\<lparr>http_log :=
       [outbound_request (insider_trades_url ''AAPL'' None 1000 ''2024-03-31'') [] ''GET'' None]\<rparr>)"
  using failing_pages [where url_of = "insider_trades_url ''AAPL'' None 1000"
      and parse = "parse_insider_trades failing_env" and date_of = filing_date]
  by (simp add: get_insider_trades_def fetch_insider_trades_def cache_hit_def cache_get_def
      api_headers_def failing_env_simps truthy_str_def)
     (simp add: w0_def)

lemma failing_company_news:
  "get_company_news failing_env ''AAPL'' ''2024-03-31'' None 1000 None w0
   = Some (Inr [], w0\<lparr>http_log :=
       [outbound_request (company_news_url ''AAPL'' None 1000 ''2024-03-31'') [] ''GET'' None]\<rparr>)"
  using failing_pages [where url_of = "company_news_url ''AAPL'' None 1000"
      and parse = "parse_company_news failing_env" and date_of = date]
  by (simp add: get_company_news_def fetch_company_news_def cache_hit_def cache_get_def
      api_headers_def failing_env_simps truthy_str_def)
     (simp add: w0_def)

theorem empty_result_not_cached_witness:
  "fst (get_prices failing_env ''AAPL'' ''2024-01-01'' ''2024-01-31'' w0) = []
   \<and> prices_cache (snd (get_prices failing_env ''AAPL'' ''2024-01-01'' ''2024-01-31'' w0))
       = Map.empty
   \<and> get_prices failing_env ''AAPL'' ''2024-01-01'' ''2024-01-31''
       (snd (get_prices failing_env ''AAPL'' ''2024-01-01'' ''2024-01-31'' w0))
     = fetch_prices failing_env ''AAPL'' ''2024-01-01'' ''2024-01-31''
         (snd (get_prices failing_env ''AAPL'' ''2024-01-01'' ''2024-01-31'' w0))
   \<and> fst (get_financial_metrics failing_env ''AAPL'' ''2024-01-31'' ''ttm'' 10 w0) = Inr []
   \<and> \<not> cache_hit (cache_get
          (financial_metrics_cache
             (snd (get_financial_metrics failing_env ''AAPL'' ''2024-01-31'' ''ttm'' 10 w0)))
          (financial_metrics_cache_key ''AAPL'' ''ttm'' ''2024-01-31'' 10))
   \<and> get_insider_trades failing_env ''AAPL'' ''2024-03-31'' None 1000 None w0
     = Some (Inr [], w0\<lparr>http_log :=
         [outbound_request (insider_trades_url ''AAPL'' None 1000 ''2024-03-31'') [] ''GET'' None]\<rparr>)
   \<and> get_insider_trades failing_env ''AAPL'' ''2024-03-31'' None 1000 None
       (w0\<lparr>http_log :=
         [outbound_request (insider_trades_url ''AAPL'' None 1000 ''2024-03-31'') [] ''GET'' None]\<rparr>)
     = fetch_insider_trades failing_env ''AAPL'' ''2024-03-31'' None 1000 None
       (w0\<lparr>http_log :=
         [outbound_request (insider_trades_url ''AAPL'' None 1000 ''2024-03-31'') [] ''GET'' None]\<rparr>)
   \<and> get_company_news failing_env ''AAPL'' ''2024-03-31'' None 1000 None w0
     = Some (Inr [], w0\<lparr>http_log :=
         [outbound_request (company_news_url ''AAPL'' None 1000 ''2024-03-31'') [] ''GET'' None]\<rparr>)
   \<and> get_company_news failing_env ''AAPL'' ''2024-03-31'' None 1000 None
       (w0\<lparr>http_log :=
         [outbound_request (company_news_url ''AAPL'' None 1000 ''2024-03-31'') [] ''GET'' None]\<rparr>)
     = fetch_company_news failing_env ''AAPL'' ''2024-03-31'' None 1000 None
       (w0\<lparr>http_log :=
         [outbound_request (company_news_url ''AAPL'' None 1000 ''2024-03-31'') [] ''GET'' None]\<rparr>)"
proof -
  note T = empty_result_not_cached [of failing_env "''AAPL''" "''2024-01-01''" "''2024-01-31''" w0]
  have p: "prices_cache w0 = Map.empty" by (simp add: w0_def)
  from T [of "''ttm''" 10 None None] failing_prices p
  have 1: "prices_cache (snd (get_prices failing_env ''AAPL'' ''2024-01-01'' ''2024-01-31'' w0))
       = Map.empty
   \<and> get_prices failing_env ''AAPL'' ''2024-01-01'' ''2024-01-31''
       (snd (get_prices failing_env ''AAPL'' ''2024-01-01'' ''2024-01-31'' w0))
     = fetch_prices failing_env ''AAPL'' ''2024-01-01'' ''2024-01-31''
         (snd (get_prices failing_env ''AAPL'' ''2024-01-01'' ''2024-01-31'' w0))"
    by simp
  from T [of "''ttm''" 10 None None] failing_metrics
  have 2: "\<not> cache_hit (cache_get
          (financial_metrics_cache
             (snd (get_financial_metrics failing_env ''AAPL'' ''2024-01-31'' ''ttm'' 10 w0)))
          (financial_metrics_cache_key ''AAPL'' ''ttm'' ''2024-01-31'' 10))"
    by blast
  note F = empty_result_not_cached [of failing_env "''AAPL''" "''2024-01-01''" "''2024-03-31''" w0
      "''ttm''" 1000 None None]
  from F failing_insider_trades
  have 3: "get_insider_trades failing_env ''AAPL'' ''2024-03-31'' None 1000 None
       (w0\<lparr>http_log :=
         [outbound_request (insider_trades_url ''AAPL'' None 1000 ''2024-03-31'') [] ''GET'' None]\<rparr>)
     = fetch_insider_trades failing_env ''AAPL'' ''2024-03-31'' None 1000 None
       (w0\<lparr>http_log :=
         [outbound_request (insider_trades_url ''AAPL'' None 1000 ''2024-03-31'') [] ''GET'' None]\<rparr>)"
    by blast
  from F failing_company_news
  have 4: "get_company_news failing_env ''AAPL'' ''2024-03-31'' None 1000 None
       (w0\<lparr>http_log :=
         [outbound_request (company_news_url ''AAPL'' None 1000 ''2024-03-31'') [] ''GET'' None]\<rparr>)
     = fetch_company_news failing_env ''AAPL'' ''2024-03-31'' None 1000 None
       (w0\<lparr>http_log :=
         [outbound_request (company_news_url ''AAPL'' None 1000 ''2024-03-31'') [] ''GET'' None]\<rparr>)"
    by blast
  from 1 2 3 4 failing_prices failing_metrics failing_insider_trades failing_company_news
  show ?thesis by blast
qed








section \<open>Every call of the price getter stays in its window\<close>

lemma split_at_last:
  assumes "c \<notin> set ys" and "c \<notin> set ys'" and "xs @ c # ys = xs' @ c # ys'"
  shows "xs = xs' \<and> ys = ys'"
proof -
  have t: "\<And>zs us. c \<notin> set us \<Longrightarrow> takeWhile (\<lambda>x. x \<noteq> c) (rev (zs @ c # us)) = rev us"
    by (auto simp add: takeWhile_tail)
  from assms(3) have "takeWhile (\<lambda>x. x \<noteq> c) (rev (xs @ c # ys))
                    = takeWhile (\<lambda>x. x \<noteq> c) (rev (xs' @ c # ys'))" by simp
  with t [OF assms(1)] t [OF assms(2)] have "ys = ys'" by simp
  with assms(3) show ?thesis by simp
qed

lemma prices_cache_key_dates:
  assumes "CHR ''_'' \<notin> set s" "CHR ''_'' \<notin> set e" "CHR ''_'' \<notin> set s'" "CHR ''_'' \<notin> set e'"
    and "prices_cache_key t s e = prices_cache_key t' s' e'"
  shows "t = t' \<and> s = s' \<and> e = e'"
proof -
  from assms(5) have "(t @ ''_'' @ s) @ CHR ''_'' # e = (t' @ ''_'' @ s') @ CHR ''_'' # e'"
    by (simp add: prices_cache_key_def)
  from split_at_last [OF assms(2) assms(4) this]
  have e: "e = e'" and "t @ CHR ''_'' # s = t' @ CHR ''_'' # s'" by simp_all
  from split_at_last [OF assms(1) assms(3) this(2)] e show ?thesis by simp
qed

lemma fetch_prices_cache:
  "prices_cache (snd (fetch_prices E t s e w)) =
     (if fst (fetch_prices E t s e w) = [] then prices_cache w
      else (prices_cache w)(prices_cache_key t s e \<mapsto> fst (fetch_prices E t s e w)))"
  using get_prices_yahoo_caches [of w E t s e]
    get_prices_finnhub_caches [of "snd (get_prices_yahoo E t s e w)" E t s e]
  by (auto simp add: fetch_prices_def same_caches_def cache_set_def split: prod.splits if_splits)

lemma get_prices_windowed:
  assumes "windowed_cache w" and "CHR ''_'' \<notin> set s" and "CHR ''_'' \<notin> set e"
  shows "(\<forall>p\<in>set (fst (get_prices E t s e w)). s \<le> p_time p \<and> p_time p \<le> e)
       \<and> windowed_cache (snd (get_prices E t s e w))"
proof (cases "cache_hit (cache_get (prices_cache w) (prices_cache_key t s e))")
  case True
  then obtain ps where "prices_cache w (prices_cache_key t s e) = Some ps"
    by (auto simp add: cache_hit_def cache_get_def split: option.splits)
  with assms True show ?thesis
    by (auto simp add: get_prices_def cache_get_def windowed_cache_def)
next
  case False
  then have g: "get_prices E t s e w = fetch_prices E t s e w" by (simp add: get_prices_def)
  have win: "\<forall>p\<in>set (fst (fetch_prices E t s e w)). s \<le> p_time p \<and> p_time p \<le> e"
    by (rule fetch_prices_window)
  have "windowed_cache (snd (fetch_prices E t s e w))"
    unfolding windowed_cache_def
  proof (intro allI impI, elim conjE)
    fix t' s' e' ps
    assume u: "CHR ''_'' \<notin> set s'" "CHR ''_'' \<notin> set e'"
      and l: "prices_cache (snd (fetch_prices E t s e w)) (prices_cache_key t' s' e') = Some ps"
    show "\<forall>p\<in>set ps. s' \<le> p_time p \<and> p_time p \<le> e'"
    proof (cases "prices_cache_key t' s' e' = prices_cache_key t s e
                  \<and> fst (fetch_prices E t s e w) \<noteq> []")
      case True
      with l have ps: "ps = fst (fetch_prices E t s e w)"
        by (simp add: fetch_prices_cache)
      from True prices_cache_key_dates [OF u assms(2,3), of t' t] have "s' = s" "e' = e"
        by blast+
      with ps win show ?thesis by simp
    next
      case False
      with l have "prices_cache w (prices_cache_key t' s' e') = Some ps"
        by (auto simp add: fetch_prices_cache split: if_splits)
      with assms(1) u show ?thesis unfolding windowed_cache_def by blast
    qed
  qed
  with win g show ?thesis by simp
qed

lemma get_prices_calls_windowed:
  assumes "windowed_cache w"
    and "\<forall>c\<in>set calls. CHR ''_'' \<notin> set (fst (snd c)) \<and> CHR ''_'' \<notin> set (snd (snd c))"
  shows "list_all2 (\<lambda>c prices. \<forall>p\<in>set prices. fst (snd c) \<le> p_time p \<and> p_time p \<le> snd (snd c))
           calls (fst (get_prices_calls E calls w))"
  using assms
proof (induction calls arbitrary: w)
  case Nil
  then show ?case by simp
next
  case (Cons c cs)
  from Cons.prems have u: "CHR ''_'' \<notin> set (fst (snd c))" "CHR ''_'' \<notin> set (snd (snd c))"
    by simp_all
  note step = get_prices_windowed [OF Cons.prems(1) u, of E "fst c"]
  from step Cons.prems(2)
  have "list_all2 (\<lambda>c prices. \<forall>p\<in>set prices. fst (snd c) \<le> p_time p \<and> p_time p \<le> snd (snd c))
           cs (fst (get_prices_calls E cs (snd (get_prices E (fst c) (fst (snd c)) (snd (snd c)) w))))"
    by (intro Cons.IH) simp_all
  with step show ?case by (simp add: case_prod_beta)
qed

text \<open>
  Claim C9. Start from an empty price store and make any sequence of calls of
  \<^verbatim>\<open>get_prices\<close> whose dates contain no underscore (as no \<^verbatim>\<open>YYYY-MM-DD\<close> date does). Then
  every call, whether it is answered by Yahoo, by Finnhub or from the cache, returns only
  records whose \<^verbatim>\<open>time\<close> lies between its \<^verbatim>\<open>start_date\<close> and its \<^verbatim>\<open>end_date\<close> in the order of
  strings. A provider's rows are filtered on the window before they are returned and
  stored, and the key \<^verbatim>\<open>f"{ticker}_{start_date}_{end_date}"\<close> determines the two dates, so
  a hit returns a list that was filtered on the same window.
\<close>

theorem get_prices_within_window:
  assumes "prices_cache w = Map.empty"
    and "\<forall>c\<in>set calls. CHR ''_'' \<notin> set (fst (snd c)) \<and> CHR ''_'' \<notin> set (snd (snd c))"
  shows "list_all2 (\<lambda>c prices. \<forall>p\<in>set prices. fst (snd c) \<le> p_time p \<and> p_time p \<le> snd (snd c))
           calls (fst (get_prices_calls E calls w))"
proof -
  from assms(1) have "windowed_cache w" by (simp add: windowed_cache_def)
  then show ?thesis using assms(2) by (rule get_prices_calls_windowed)
qed

theorem get_prices_within_window_witness:
  "prices_cache w0 = Map.empty
   \<and> CHR ''_'' \<notin> set ''2024-01-01'' \<and> CHR ''_'' \<notin> set ''2024-01-31''
   \<and> fst (get_prices_calls yahoo_env
            [(''A_9'', ''2024-01-01'', ''2024-01-31''), (''A_9'', ''2024-01-01'', ''2024-01-31'')]
            w0) = [[bar], [bar]]
   \<and> length (http_log (snd (get_prices_calls yahoo_env
            [(''A_9'', ''2024-01-01'', ''2024-01-31''), (''A_9'', ''2024-01-01'', ''2024-01-31'')]
            w0))) = 1
   \<and> ''2024-01-01'' \<le> p_time bar \<and> p_time bar \<le> ''2024-01-31''"
proof -
  let ?calls = "[(''A_9'', ''2024-01-01'', ''2024-01-31''), (''A_9'', ''2024-01-01'', ''2024-01-31'')]"
  have e: "prices_cache w0 = Map.empty" by (simp add: w0_def)
  have second: "get_prices yahoo_env ''A_9'' ''2024-01-01'' ''2024-01-31''
           (w0\<lparr>prices_cache := [''A_9_2024-01-01_2024-01-31'' \<mapsto> [bar]],
              http_log := [\<lparr>req_method = ''GET'',
                req_url = ''https://query1.finance.yahoo.com/v8/finance/chart/A_9?interval=1d&range=5d'',
                req_params = [], req_headers = [(''User-Agent'', YAHOO_USER_AGENT)],
                req_json = None\<rparr>]\<rparr>)
        = ([bar], w0\<lparr>prices_cache := [''A_9_2024-01-01_2024-01-31'' \<mapsto> [bar]],
              http_log := [\<lparr>req_method = ''GET'',
                req_url = ''https://query1.finance.yahoo.com/v8/finance/chart/A_9?interval=1d&range=5d'',
                req_params = [], req_headers = [(''User-Agent'', YAHOO_USER_AGENT)],
                req_json = None\<rparr>]\<rparr>)"
    by (simp add: get_prices_def cache_hit_def cache_get_def prices_cache_key_def)
  have r: "fst (get_prices_calls yahoo_env ?calls w0) = [[bar], [bar]]"
    and l: "length (http_log (snd (get_prices_calls yahoo_env ?calls w0))) = 1"
    by (simp_all add: get_prices_first_call second)
  have "list_all2 (\<lambda>c prices. \<forall>p\<in>set prices. fst (snd c) \<le> p_time p \<and> p_time p \<le> snd (snd c))
           ?calls (fst (get_prices_calls yahoo_env ?calls w0))"
    by (rule get_prices_within_window [OF e]) simp
  with r have "''2024-01-01'' \<le> p_time bar \<and> p_time bar \<le> ''2024-01-31''" by simp
  with e r l show ?thesis by simp
qed

section \<open>A zero from Finnhub is passed over\<close>

lemma supplement_env_simps:
  "FINNHUB_KEYS supplement_env = [''k1'', ''k2'', ''k3'']"
  "valid_metrics supplement_env m"
  "FMP_API_KEY supplement_env = Some ''demo''"
  "net supplement_env n q = Responded \<lparr>status_code = 200, text_of = [],
        json_of = Some
          (if req_url q = ''https://finnhub.io/api/v1/stock/metric''
           then JObj [(''metric'', zero_metrics)]
           else if req_url q = ''https://finnhub.io/api/v1/stock/profile2''
           then full_profile
           else if req_url q = ''https://financialmodelingprep.com/stable/ratios?symbol=AAPL&apikey=demo''
           then JArr [JObj [(''priceToEarningsGrowthRatio'', JNum (3 / 2))]]
           else JArr [JObj [(''returnOnEquity'', JNum (3 / 10))]])\<rparr>"
  by (simp_all add: supplement_env_def test_env_def)

lemma supplement_env_metric:
  "finnhub_request supplement_env ''stock/metric'' ps 3 w =
     (Inr (JObj [(''metric'', zero_metrics)]),
      w\<lparr>finnhub_key_index := finnhub_key_index w + 1,
         http_log := http_log w @
           [\<lparr>req_method = ''GET'', req_url = ''https://finnhub.io/api/v1/stock/metric'',
             req_params = dict_set ''token''
               (JStr ([''k1'', ''k2'', ''k3''] ! nat (finnhub_key_index w mod 3))) ps,
             req_headers = [], req_json = None\<rparr>]\<rparr>)"
proof -
  have "finnhub_attempts supplement_env ''stock/metric'' ps
          (nat (3 * int (length (FINNHUB_KEYS supplement_env)))) [] w =
     (Inr (JObj [(''metric'', zero_metrics)]),
      w\<lparr>finnhub_key_index := finnhub_key_index w + 1,
         http_log := http_log w @
           [\<lparr>req_method = ''GET'', req_url = ''https://finnhub.io/api/v1/'' @ ''stock/metric'',
             req_params = dict_set ''token''
               (JStr (FINNHUB_KEYS supplement_env !
                  nat (finnhub_key_index w mod int (length (FINNHUB_KEYS supplement_env)))))
               ps,
             req_headers = [], req_json = None\<rparr>]\<rparr>)"
    by (intro finnhub_attempt_ok [where r = "\<lparr>status_code = 200, text_of = [],
        json_of = Some (JObj [(''metric'', zero_metrics)])\<rparr>"])
       (simp_all add: supplement_env_simps)
  then show ?thesis
    by (simp add: finnhub_request_def supplement_env_simps)
qed

lemma supplement_env_profile:
  "finnhub_request supplement_env ''stock/profile2'' ps 3 w =
     (Inr full_profile,
      w\<lparr>finnhub_key_index := finnhub_key_index w + 1,
         http_log := http_log w @
           [\<lparr>req_method = ''GET'', req_url = ''https://finnhub.io/api/v1/stock/profile2'',
             req_params = dict_set ''token''
               (JStr ([''k1'', ''k2'', ''k3''] ! nat (finnhub_key_index w mod 3))) ps,
             req_headers = [], req_json = None\<rparr>]\<rparr>)"
proof -
  have "finnhub_attempts supplement_env ''stock/profile2'' ps
          (nat (3 * int (length (FINNHUB_KEYS supplement_env)))) [] w =
     (Inr full_profile,
      w\<lparr>finnhub_key_index := finnhub_key_index w + 1,
         http_log := http_log w @
           [\<lparr>req_method = ''GET'', req_url = ''https://finnhub.io/api/v1/'' @ ''stock/profile2'',
             req_params = dict_set ''token''
               (JStr (FINNHUB_KEYS supplement_env !
                  nat (finnhub_key_index w mod int (length (FINNHUB_KEYS supplement_env)))))
               ps,
             req_headers = [], req_json = None\<rparr>]\<rparr>)"
    by (intro finnhub_attempt_ok [where r = "\<lparr>status_code = 200, text_of = [],
        json_of = Some full_profile\<rparr>"])
       (simp_all add: supplement_env_simps full_profile_def)
  then show ?thesis
    by (simp add: finnhub_request_def supplement_env_simps)
qed

lemma supplement_env_fmp:
  "financial_metrics_cache w = Map.empty \<Longrightarrow>
   fst (fmp_supplement supplement_env ''AAPL'' w)
   = Inr (JObj [(''priceToEarningsGrowthRatio'', JNum (3 / 2))],
          JObj [(''returnOnEquity'', JNum (3 / 10))])"
  by (simp add: fmp_supplement_def fmp_fetch_supplement_def cache_hit_def cache_get_def
      http_send_def supplement_env_simps get_request_def first_row_def Let_def)

lemma supplement_env_adapter:
  "fst (get_financial_metrics_finnhub supplement_env ''AAPL'' ''2024-01-31'' ''ttm'' 10 w0)
   = [fixed_fields ''AAPL'' ''2024-01-31'' ''ttm'' (JStr ''USD'') (JNum 3000000000000)
      @ mapped_fields zero_metrics
          (JObj [(''priceToEarningsGrowthRatio'', JNum (3 / 2))])
          (JObj [(''returnOnEquity'', JNum (3 / 10))])]"
proof -
  let ?w2 = "w0\<lparr>finnhub_key_index := 2,
         http_log :=
           [\<lparr>req_method = ''GET'', req_url = ''https://finnhub.io/api/v1/stock/metric'',
             req_params = [(''symbol'', JStr ''AAPL''), (''metric'', JStr ''all''),
                           (''token'', JStr ''k1'')],
             req_headers = [], req_json = None\<rparr>,
            \<lparr>req_method = ''GET'', req_url = ''https://finnhub.io/api/v1/stock/profile2'',
             req_params = [(''symbol'', JStr ''AAPL''), (''token'', JStr ''k2'')],
             req_headers = [], req_json = None\<rparr>]\<rparr>"
  have c: "financial_metrics_cache ?w2 = Map.empty" by (simp add: w0_def)
  obtain w3 where s: "fmp_supplement supplement_env ''AAPL'' ?w2
     = (Inr (JObj [(''priceToEarningsGrowthRatio'', JNum (3 / 2))],
             JObj [(''returnOnEquity'', JNum (3 / 10))]), w3)"
    using supplement_env_fmp [OF c] by (cases "fmp_supplement supplement_env ''AAPL'' ?w2") auto
  have n: "needs_fmp supplement_env zero_metrics = Inr True"
    by (simp add: needs_fmp_def supplement_env_simps truthy_str_def zero_metrics_def dget_def
        bind_err_def)
  show ?thesis
    using s n
    by (simp add: get_financial_metrics_finnhub_def get_financial_metrics_finnhub_try_def
        supplement_env_metric supplement_env_profile full_profile_def
        profile_market_cap_def profile_currency_def supplement_env_simps
        metrics_of_dicts bind_err_def w0_def zero_metrics_def)
qed

lemma roe_row:
  "(''return_on_equity'', [(Metric, ''roeTTM''), (Metric, ''roeRfy''),
                           (KeyMetrics, ''returnOnEquity'')]) \<in> set field_candidates"
  by (simp add: field_candidates_def)

text \<open>
  Claim C7 against the code. Finnhub reports \<open>peNormalizedAnnual = 0\<close>, \<open>peTTM = 15\<close> and
  \<open>roeTTM = 0\<close>, and the FMP supplement reports \<open>returnOnEquity = 0.3\<close>. The first present,
  non-null candidate of the price-to-earnings ratio and of the return on equity is 0 in
  both cases, but the record the adapter builds holds 15 and 0.3: the \<^verbatim>\<open>or\<close> between the
  candidates passes over a zero as it passes over \<^verbatim>\<open>None\<close>.
\<close>

theorem finnhub_zero_candidate_dropped:
  "map_of (hd (fst (get_financial_metrics_finnhub supplement_env
                      ''AAPL'' ''2024-01-31'' ''ttm'' 10 w0)))
     ''price_to_earnings_ratio'' = Some (JNum 15)
   \<and> map_of (hd (fst (get_financial_metrics_finnhub supplement_env
                      ''AAPL'' ''2024-01-31'' ''ttm'' 10 w0)))
     ''return_on_equity'' = Some (JNum (3 / 10))
   \<and> first_non_null
        (map (candidate_value zero_metrics
                (JObj [(''priceToEarningsGrowthRatio'', JNum (3 / 2))])
                (JObj [(''returnOnEquity'', JNum (3 / 10))]))
           [(Metric, ''peNormalizedAnnual''), (Metric, ''peTTM'')]) = JNum 0
   \<and> first_non_null
        (map (candidate_value zero_metrics
                (JObj [(''priceToEarningsGrowthRatio'', JNum (3 / 2))])
                (JObj [(''returnOnEquity'', JNum (3 / 10))]))
           [(Metric, ''roeTTM''), (Metric, ''roeRfy''), (KeyMetrics, ''returnOnEquity'')])
       = JNum 0"
  using mapped_lookup [OF pe_row, of "''AAPL''" "''2024-01-31''" "''ttm''" "JStr ''USD''"
      "JNum 3000000000000" zero_metrics "JObj [(''priceToEarningsGrowthRatio'', JNum (3 / 2))]"
      "JObj [(''returnOnEquity'', JNum (3 / 10))]"]
    mapped_lookup [OF roe_row, of "''AAPL''" "''2024-01-31''" "''ttm''" "JStr ''USD''"
      "JNum 3000000000000" zero_metrics "JObj [(''priceToEarningsGrowthRatio'', JNum (3 / 2))]"
      "JObj [(''returnOnEquity'', JNum (3 / 10))]"]
  by (simp add: supplement_env_adapter) (simp add: zero_metrics_def candidate_dict)

end
